theory Spec2Isabelle
  imports Main
begin

section \<open>JavaScript values\<close>

text \<open>
  A sheet is read as \<open>any[][]\<close>: every cell is an untyped JavaScript value. Numeric
  cells are modelled as integers. Strings are HOL strings; \<open>toUpperCase\<close> is modelled
  on the ASCII letters and leaves every other character unchanged.
\<close>

datatype jsval = VUndefined | VNull | VBool bool | VNum int | VStr string

datatype json = JNull | JBool bool | JNum int | JStr string
  | JArr "json list" | JObj "(string \<times> json) list"

text \<open>
  The numbers that \<open>parseInt\<close> can return: \<open>NaN\<close>, an integer, or an infinity (for a
  digit string beyond the range of a double).
\<close>

datatype number = NaN | NegInfinity | Finite int | Infinity

text \<open>A thrown \<open>Error\<close>: its message, \<open>error.code\<close> and \<open>error.response?.status\<close>.\<close>

datatype error = Error (err_message: string) (err_code: "string option") (err_status: "nat option")

fun truthy :: "jsval \<Rightarrow> bool" where
  "truthy VUndefined = False"
| "truthy VNull = False"
| "truthy (VBool b) = b"
| "truthy (VNum n) = (n \<noteq> 0)"
| "truthy (VStr s) = (s \<noteq> [])"

text \<open>\<open>v || undefined\<close> and \<open>v || ''\<close>.\<close>

definition or_undefined :: "jsval \<Rightarrow> jsval" where
  "or_undefined v = (if truthy v then v else VUndefined)"

definition or_empty :: "jsval \<Rightarrow> jsval" where
  "or_empty v = (if truthy v then v else VStr [])"

text \<open>\<open>row[i]\<close>: reading past the end of an array gives \<open>undefined\<close>.\<close>

definition row_at :: "jsval list \<Rightarrow> nat \<Rightarrow> jsval" where
  "row_at row i = (if i < length row then row ! i else VUndefined)"

definition toUpperChar :: "char \<Rightarrow> char" where
  "toUpperChar ch =
     (case map_of (zip ''abcdefghijklmnopqrstuvwxyz'' ''ABCDEFGHIJKLMNOPQRSTUVWXYZ'') ch of
        Some u \<Rightarrow> u
      | None \<Rightarrow> ch)"

definition toUpperCase :: "string \<Rightarrow> string" where
  "toUpperCase s = map toUpperChar s"

section \<open>Utility functions\<close>

fun parseBoolean :: "jsval \<Rightarrow> bool" where
  "parseBoolean (VBool b) = b"
| "parseBoolean (VStr s) = (toUpperCase s = ''TRUE'')"
| "parseBoolean v = False"

text \<open>
  The wording of the specification for a true cell: the boolean true, or a string equal to
  \<open>TRUE\<close> up to the case of each of its four letters.
\<close>

definition is_true_token :: "string \<Rightarrow> bool" where
  "is_true_token s =
     (\<exists>a b c d. s = [a, b, c, d] \<and> a \<in> {CHR ''T'', CHR ''t''} \<and> b \<in> {CHR ''R'', CHR ''r''}
        \<and> c \<in> {CHR ''U'', CHR ''u''} \<and> d \<in> {CHR ''E'', CHR ''e''})"

definition spec_true_cell :: "jsval \<Rightarrow> bool" where
  "spec_true_cell v = (v = VBool True \<or> (\<exists>s. v = VStr s \<and> is_true_token s))"

text \<open>Decimal rendering of a row number inside a template string.\<close>

definition digit_char :: "nat \<Rightarrow> char" where
  "digit_char d = ''0123456789'' ! (d mod 10)"

function string_of_nat :: "nat \<Rightarrow> string" where
  "string_of_nat n =
     (if n < 10 then [digit_char n] else string_of_nat (n div 10) @ [digit_char (n mod 10)])"
  by pat_completeness auto
termination
  by (relation "measure (\<lambda>n. n)") auto



section \<open>Data layer types\<close>

text \<open>
  The interfaces of the data layer. A field read straight from a cell holds whatever the
  cell held, so it is a \<open>jsval\<close>. Field names carry a prefix of their interface
  (\<open>r_\<close> Role, \<open>ra_\<close> RoleAssignment, \<open>m_\<close> Module, \<open>p_\<close> Permission,
  \<open>sl_\<close> SystemLog, \<open>ur_\<close> UserRole, \<open>up_\<close> UserPermission).
\<close>

record Role =
  r_role_id :: jsval
  r_role_code :: jsval
  r_role_name :: jsval
  r_description :: jsval
  r_is_active :: bool
  r_created_at :: jsval
  r_updated_at :: jsval

record RoleAssignment =
  ra_assignment_id :: jsval
  ra_user_id :: jsval
  ra_role_id :: jsval
  ra_site_code :: jsval
  ra_assigned_by :: jsval
  ra_assigned_at :: jsval
  ra_expires_at :: jsval
  ra_is_active :: bool

record Module =
  m_module_id :: jsval
  m_module_code :: jsval
  m_module_name :: jsval
  m_description :: jsval
  m_icon :: jsval
  m_route :: jsval
  m_is_active :: bool
  m_sort_order :: number
  m_created_at :: jsval
  m_updated_at :: jsval

record Permission =
  p_permission_id :: jsval
  p_role_id :: jsval
  p_module_code :: jsval
  p_action :: jsval
  p_resource :: jsval
  p_conditions :: jsval
  p_is_active :: bool
  p_created_at :: jsval
  p_updated_at :: jsval

record SystemLog =
  sl_log_id :: jsval
  sl_timestamp :: jsval
  sl_level :: jsval
  sl_user_id :: jsval
  sl_module_code :: jsval
  sl_action :: jsval
  sl_message :: jsval
  sl_details :: jsval
  sl_correlation_id :: jsval
  sl_ip_address :: jsval
  sl_user_agent :: jsval

section \<open>The environment outside the repository\<close>

text \<open>
  What the code calls and does not define: the three calls of the Google Sheets API it
  uses, the clock, timers, the UUID generator, the JSON parser and \<open>parseInt\<close>. \<open>'r\<close> is the state of
  that outside world (the remote spreadsheet, the time, the network). Time is in
  milliseconds since the epoch.
\<close>

record 'r env =
  values_get :: "string \<Rightarrow> 'r \<Rightarrow> (error + jsval list list option) \<times> 'r"
  values_update :: "string \<Rightarrow> jsval list list \<Rightarrow> 'r \<Rightarrow> (error + unit) \<times> 'r"
  values_append :: "string \<Rightarrow> jsval list list \<Rightarrow> 'r \<Rightarrow> (error + unit) \<times> 'r"
  Date_now :: "'r \<Rightarrow> nat"
  setTimeout :: "nat \<Rightarrow> 'r \<Rightarrow> 'r"
  randomUUID :: "'r \<Rightarrow> string \<times> 'r"
  toISOString :: "'r \<Rightarrow> string"
  JSON_parse :: "jsval \<Rightarrow> json option"
  parseInt :: "jsval \<Rightarrow> number"

definition generateId :: "'r env \<Rightarrow> 'r \<Rightarrow> string \<times> 'r" where
  "generateId env r = randomUUID env r"

definition now :: "'r env \<Rightarrow> 'r \<Rightarrow> string" where
  "now env r = toISOString env r"

definition safeJsonParse :: "'r env \<Rightarrow> jsval \<Rightarrow> json \<Rightarrow> json" where
  "safeJsonParse env v fallback =
     (if \<not> truthy v then fallback
      else case JSON_parse env v of Some j \<Rightarrow> j | None \<Rightarrow> fallback)"

section \<open>Circuit breaker\<close>

datatype breaker_state = CLOSED | OPEN | HALF_OPEN

record CircuitBreaker =
  failures :: nat
  state :: breaker_state
  nextAttempt :: "nat option"

definition threshold :: nat where
  "threshold = 5"

definition timeout :: nat where
  "timeout = 60000"

definition new_CircuitBreaker :: CircuitBreaker where
  "new_CircuitBreaker = \<lparr>failures = 0, state = CLOSED, nextAttempt = None\<rparr>"

definition breaker_open_error :: error where
  "breaker_open_error =
     Error ''Circuit breaker is OPEN - Sheets API temporarily unavailable'' None None"

definition onSuccess :: "CircuitBreaker \<Rightarrow> CircuitBreaker" where
  "onSuccess cb = cb\<lparr>failures := 0, state := CLOSED\<rparr>"

definition onFailure :: "'r env \<Rightarrow> CircuitBreaker \<Rightarrow> 'r \<Rightarrow> CircuitBreaker" where
  "onFailure env cb r =
     (let cb1 = cb\<lparr>failures := failures cb + 1\<rparr>
      in if failures cb1 \<ge> threshold
         then cb1\<lparr>state := OPEN, nextAttempt := Some (Date_now env r + timeout)\<rparr>
         else cb1)"

text \<open>\<open>this.nextAttempt && Date.now() < this.nextAttempt\<close>: \<open>null\<close> and \<open>0\<close> are falsy.\<close>

definition cooling_down :: "'r env \<Rightarrow> CircuitBreaker \<Rightarrow> 'r \<Rightarrow> bool" where
  "cooling_down env cb r =
     (case nextAttempt cb of None \<Rightarrow> False | Some t \<Rightarrow> t \<noteq> 0 \<and> Date_now env r < t)"

text \<open>
  The state of the process below the resolver: the module-level breaker of the Sheets
  client and the outside world.
\<close>

type_synonym 'r world = "CircuitBreaker \<times> 'r"

definition execute ::
  "'r env \<Rightarrow> ('r \<Rightarrow> (error + 'a) \<times> 'r) \<Rightarrow> 'r world \<Rightarrow> (error + 'a) \<times> 'r world" where
  "execute env fn w =
     (case w of (cb, r) \<Rightarrow>
        if state cb = OPEN \<and> cooling_down env cb r then (Inl breaker_open_error, (cb, r))
        else
          let cb1 = (if state cb = OPEN then cb\<lparr>state := HALF_OPEN\<rparr> else cb)
          in case fn r of
               (Inr result, r') \<Rightarrow> (Inr result, (onSuccess cb1, r'))
             | (Inl err, r') \<Rightarrow> (Inl err, (onFailure env cb1 r', r')))"

section \<open>Retry logic\<close>

definition delays :: "nat list" where
  "delays = [200, 500, 1000]"

definition isRetryable :: "error \<Rightarrow> bool" where
  "isRetryable err =
     (err_code err = Some ''ETIMEDOUT'' \<or> err_code err = Some ''ECONNRESET''
      \<or> (case err_status err of Some st \<Rightarrow> st \<ge> 500 | None \<Rightarrow> False)
      \<or> err_status err = Some 429)"

text \<open>The \<open>for\<close> loop of \<open>retryWithBackoff\<close>, entered with loop variable \<open>i\<close>.\<close>

function retry_from ::
  "'r env \<Rightarrow> ('r \<Rightarrow> (error + 'a) \<times> 'r) \<Rightarrow> nat \<Rightarrow> nat \<Rightarrow> 'r \<Rightarrow> (error + 'a) \<times> 'r" where
  "retry_from env fn maxRetries i r =
     (if i < maxRetries then
        (case fn r of
           (Inr v, r') \<Rightarrow> (Inr v, r')
         | (Inl err, r') \<Rightarrow>
             if \<not> isRetryable err \<or> Suc i = maxRetries then (Inl err, r')
             else retry_from env fn maxRetries (Suc i)
                    (setTimeout env (if i < length delays then delays ! i else 0) r'))
      else (Inl (Error ''Max retries exceeded'' None None), r))"
  by pat_completeness auto
termination
  by (relation "measure (\<lambda>(env, fn, maxRetries, i, r). maxRetries - i)") auto

definition retryWithBackoff ::
  "'r env \<Rightarrow> ('r \<Rightarrow> (error + 'a) \<times> 'r) \<Rightarrow> 'r \<Rightarrow> (error + 'a) \<times> 'r" where
  "retryWithBackoff env fn r = retry_from env fn 3 0 r"

section \<open>Sheets client\<close>

definition fullRange :: "string \<Rightarrow> string option \<Rightarrow> string" where
  "fullRange sheetName rng =
     (case rng of
        Some rg \<Rightarrow> if rg \<noteq> [] then sheetName @ ''!'' @ rg else sheetName
      | None \<Rightarrow> sheetName)"

definition api_read :: "'r env \<Rightarrow> string \<Rightarrow> 'r \<Rightarrow> (error + jsval list list) \<times> 'r" where
  "api_read env rg r =
     (case values_get env rg r of
        (Inl err, r') \<Rightarrow> (Inl err, r')
      | (Inr vs, r') \<Rightarrow> (Inr (case vs of Some rows \<Rightarrow> rows | None \<Rightarrow> []), r'))"

definition SheetsClient_read ::
  "'r env \<Rightarrow> string \<Rightarrow> string option \<Rightarrow> 'r world \<Rightarrow> (error + jsval list list) \<times> 'r world" where
  "SheetsClient_read env sheetName rng w =
     execute env (retryWithBackoff env (api_read env (fullRange sheetName rng))) w"

definition SheetsClient_write ::
  "'r env \<Rightarrow> string \<Rightarrow> string \<Rightarrow> jsval list list \<Rightarrow> 'r world \<Rightarrow> (error + unit) \<times> 'r world" where
  "SheetsClient_write env sheetName rng vals w =
     execute env (retryWithBackoff env (values_update env (sheetName @ ''!'' @ rng) vals)) w"

definition SheetsClient_append ::
  "'r env \<Rightarrow> string \<Rightarrow> jsval list list \<Rightarrow> 'r world \<Rightarrow> (error + unit) \<times> 'r world" where
  "SheetsClient_append env sheetName vals w =
     execute env (retryWithBackoff env (values_append env sheetName vals)) w"

section \<open>Sheets data adapter\<close>

definition mapRowToRole :: "jsval list \<Rightarrow> Role" where
  "mapRowToRole row =
     \<lparr>r_role_id = row_at row 0, r_role_code = row_at row 1, r_role_name = row_at row 2,
      r_description = row_at row 3, r_is_active = parseBoolean (row_at row 4),
      r_created_at = row_at row 5, r_updated_at = row_at row 6\<rparr>"

definition mapRowToRoleAssignment :: "jsval list \<Rightarrow> RoleAssignment" where
  "mapRowToRoleAssignment row =
     \<lparr>ra_assignment_id = row_at row 0, ra_user_id = row_at row 1, ra_role_id = row_at row 2,
      ra_site_code = or_undefined (row_at row 3), ra_assigned_by = row_at row 4,
      ra_assigned_at = row_at row 5, ra_expires_at = or_undefined (row_at row 6),
      ra_is_active = parseBoolean (row_at row 7)\<rparr>"

text \<open>\<open>parseInt(v) || 0\<close>: \<open>NaN\<close> and zero are the falsy numbers.\<close>

definition parseInt_or_0 :: "'r env \<Rightarrow> jsval \<Rightarrow> number" where
  "parseInt_or_0 env v = (case parseInt env v of NaN \<Rightarrow> Finite 0 | n \<Rightarrow> n)"

definition mapRowToModule :: "'r env \<Rightarrow> jsval list \<Rightarrow> Module" where
  "mapRowToModule env row =
     \<lparr>m_module_id = row_at row 0, m_module_code = row_at row 1, m_module_name = row_at row 2,
      m_description = row_at row 3, m_icon = row_at row 4, m_route = row_at row 5,
      m_is_active = parseBoolean (row_at row 6), m_sort_order = parseInt_or_0 env (row_at row 7),
      m_created_at = row_at row 8, m_updated_at = row_at row 9\<rparr>"

definition mapRowToPermission :: "jsval list \<Rightarrow> Permission" where
  "mapRowToPermission row =
     \<lparr>p_permission_id = row_at row 0, p_role_id = row_at row 1, p_module_code = row_at row 2,
      p_action = row_at row 3, p_resource = row_at row 4,
      p_conditions = or_undefined (row_at row 5), p_is_active = parseBoolean (row_at row 6),
      p_created_at = row_at row 7, p_updated_at = row_at row 8\<rparr>"

definition getRoles :: "'r env \<Rightarrow> 'r world \<Rightarrow> (error + Role list) \<times> 'r world" where
  "getRoles env w =
     (case SheetsClient_read env ''ROLES'' None w of
        (Inl err, w') \<Rightarrow> (Inl err, w')
      | (Inr rows, w') \<Rightarrow> (Inr (map mapRowToRole (drop 1 rows)), w'))"

definition getRoleById :: "'r env \<Rightarrow> jsval \<Rightarrow> 'r world \<Rightarrow> (error + Role option) \<times> 'r world" where
  "getRoleById env roleId w =
     (case getRoles env w of
        (Inl err, w') \<Rightarrow> (Inl err, w')
      | (Inr roles, w') \<Rightarrow> (Inr (find (\<lambda>r. r_role_id r = roleId) roles), w'))"

definition getRoleAssignments ::
  "'r env \<Rightarrow> string \<Rightarrow> 'r world \<Rightarrow> (error + RoleAssignment list) \<times> 'r world" where
  "getRoleAssignments env userId w =
     (case SheetsClient_read env ''ROLE_ASSIGNMENTS'' None w of
        (Inl err, w') \<Rightarrow> (Inl err, w')
      | (Inr rows, w') \<Rightarrow>
          (Inr (filter (\<lambda>a. ra_user_id a = VStr userId \<and> ra_is_active a)
                  (map mapRowToRoleAssignment (drop 1 rows))), w'))"






definition getModules :: "'r env \<Rightarrow> 'r world \<Rightarrow> (error + Module list) \<times> 'r world" where
  "getModules env w =
     (case SheetsClient_read env ''MODULES'' None w of
        (Inl err, w') \<Rightarrow> (Inl err, w')
      | (Inr rows, w') \<Rightarrow> (Inr (map (mapRowToModule env) (drop 1 rows)), w'))"

text \<open>
  The comparator \<open>(a, b) => a.sort_order - b.sort_order\<close>, as the test \<open>a - b > 0\<close>. Both
  operands come from \<open>parseInt(v) || 0\<close>, so neither is \<open>NaN\<close>: they are integers or
  infinities. The difference of two integers held as doubles has the sign of their
  comparison; the difference of two equal infinities is \<open>NaN\<close>, which the sort takes for
  zero.
\<close>

fun minus_positive :: "number \<Rightarrow> number \<Rightarrow> bool" where
  "minus_positive (Finite x) (Finite y) = (y < x)"
| "minus_positive Infinity (Finite y) = True"
| "minus_positive Infinity NegInfinity = True"
| "minus_positive (Finite x) NegInfinity = True"
| "minus_positive a b = False"

definition by_sort_order :: "Module \<Rightarrow> Module \<Rightarrow> bool" where
  "by_sort_order a b = minus_positive (m_sort_order a) (m_sort_order b)"

text \<open>
  \<open>Array.prototype.sort\<close> is stable: under a comparator that orders the elements
  consistently it returns them sorted, equal elements in their original order, which is
  what insertion from the right into a sorted list gives.
\<close>

fun sort_insert :: "('a \<Rightarrow> 'a \<Rightarrow> bool) \<Rightarrow> 'a \<Rightarrow> 'a list \<Rightarrow> 'a list" where
  "sort_insert gt x [] = [x]"
| "sort_insert gt x (y # ys) = (if gt x y then y # sort_insert gt x ys else x # y # ys)"

definition Array_sort :: "('a \<Rightarrow> 'a \<Rightarrow> bool) \<Rightarrow> 'a list \<Rightarrow> 'a list" where
  "Array_sort gt xs = foldr (sort_insert gt) xs []"

definition getActiveModules :: "'r env \<Rightarrow> 'r world \<Rightarrow> (error + Module list) \<times> 'r world" where
  "getActiveModules env w =
     (case getModules env w of
        (Inl err, w') \<Rightarrow> (Inl err, w')
      | (Inr modules, w') \<Rightarrow> (Inr (Array_sort by_sort_order (filter m_is_active modules)), w'))"

definition getPermissions ::
  "'r env \<Rightarrow> jsval \<Rightarrow> 'r world \<Rightarrow> (error + Permission list) \<times> 'r world" where
  "getPermissions env roleId w =
     (case SheetsClient_read env ''PERMISSIONS'' None w of
        (Inl err, w') \<Rightarrow> (Inl err, w')
      | (Inr rows, w') \<Rightarrow>
          (Inr (filter (\<lambda>p. p_role_id p = roleId \<and> p_is_active p)
                  (map mapRowToPermission (drop 1 rows))), w'))"

definition systemLog_row :: "SystemLog \<Rightarrow> jsval list" where
  "systemLog_row l =
     [sl_log_id l, sl_timestamp l, sl_level l, or_empty (sl_user_id l),
      or_empty (sl_module_code l), or_empty (sl_action l), sl_message l,
      or_empty (sl_details l), or_empty (sl_correlation_id l), or_empty (sl_ip_address l),
      or_empty (sl_user_agent l)]"

definition createSystemLog ::
  "'r env \<Rightarrow> SystemLog \<Rightarrow> 'r world \<Rightarrow> (error + unit) \<times> 'r world" where
  "createSystemLog env log w =
     (case w of (cb, r) \<Rightarrow>
        case generateId env r of (uuid, r1) \<Rightarrow>
          let newLog = log\<lparr>sl_log_id := VStr uuid, sl_timestamp := VStr (now env r1)\<rparr>
          in SheetsClient_append env ''SYSTEM_LOG'' [systemLog_row newLog] (cb, r1))"

section \<open>RBAC types and the permission cache\<close>

record UserPermission =
  up_module_code :: jsval
  up_action :: jsval
  up_resource :: jsval
  up_conditions :: json

record UserRole =
  ur_role_id :: jsval
  ur_role_code :: jsval
  ur_role_name :: jsval
  ur_site_code :: jsval

record CacheEntry =
  permissions :: "UserPermission list"
  expiresAt :: nat

type_synonym cache = "string \<rightharpoonup> CacheEntry"

definition CACHE_TTL :: nat where
  "CACHE_TTL = 5 * 60 * 1000"

definition getCachedPermissions ::
  "'r env \<Rightarrow> string \<Rightarrow> cache \<Rightarrow> 'r \<Rightarrow> UserPermission list option \<times> cache" where
  "getCachedPermissions env userId c r =
     (case c userId of
        None \<Rightarrow> (None, c)
      | Some entry \<Rightarrow>
          if Date_now env r > expiresAt entry then (None, c(userId := None))
          else (Some (permissions entry), c))"

definition setCachedPermissions ::
  "'r env \<Rightarrow> string \<Rightarrow> UserPermission list \<Rightarrow> cache \<Rightarrow> 'r \<Rightarrow> cache" where
  "setCachedPermissions env userId perms c r =
     c(userId \<mapsto> \<lparr>permissions = perms, expiresAt = Date_now env r + CACHE_TTL\<rparr>)"


section \<open>Permission resolution\<close>

text \<open>
  Every function is asynchronous and may reject: its result is \<open>Inl\<close> for a thrown error
  and \<open>Inr\<close> for a returned value, and each \<open>try\<close>/\<open>catch\<close> is the \<open>Inl\<close> branch of
  a case. The resolver's state is the module-level cache together with the world below it.
  Console output is not modelled.
\<close>

definition userRole_of :: "Role \<Rightarrow> RoleAssignment \<Rightarrow> UserRole" where
  "userRole_of role assignment =
     \<lparr>ur_role_id = r_role_id role, ur_role_code = r_role_code role,
      ur_role_name = r_role_name role, ur_site_code = ra_site_code assignment\<rparr>"

fun getUserRoles_loop ::
  "'r env \<Rightarrow> RoleAssignment list \<Rightarrow> UserRole list \<Rightarrow> 'r world
     \<Rightarrow> (error + UserRole list) \<times> 'r world" where
  "getUserRoles_loop env [] roles w = (Inr roles, w)"
| "getUserRoles_loop env (assignment # rest) roles w =
     (case getRoleById env (ra_role_id assignment) w of
        (Inl err, w') \<Rightarrow> (Inl err, w')
      | (Inr None, w') \<Rightarrow> getUserRoles_loop env rest roles w'
      | (Inr (Some role), w') \<Rightarrow>
          if r_is_active role
          then getUserRoles_loop env rest (roles @ [userRole_of role assignment]) w'
          else getUserRoles_loop env rest roles w')"

definition getUserRoles ::
  "'r env \<Rightarrow> string \<Rightarrow> 'r world \<Rightarrow> (error + UserRole list) \<times> 'r world" where
  "getUserRoles env userId w =
     (case getRoleAssignments env userId w of
        (Inl err, w') \<Rightarrow> (Inr [], w')
      | (Inr assignments, w') \<Rightarrow>
          (case getUserRoles_loop env assignments [] w' of
             (Inl err, w'') \<Rightarrow> (Inr [], w'')
           | (Inr roles, w'') \<Rightarrow> (Inr roles, w'')))"

definition userPermission_of :: "'r env \<Rightarrow> Permission \<Rightarrow> UserPermission" where
  "userPermission_of env perm =
     \<lparr>up_module_code = p_module_code perm, up_action = p_action perm,
      up_resource = p_resource perm,
      up_conditions = safeJsonParse env (p_conditions perm) (JObj [])\<rparr>"

fun getUserPermissions_loop ::
  "'r env \<Rightarrow> UserRole list \<Rightarrow> UserPermission list \<Rightarrow> 'r world
     \<Rightarrow> (error + UserPermission list) \<times> 'r world" where
  "getUserPermissions_loop env [] allPermissions w = (Inr allPermissions, w)"
| "getUserPermissions_loop env (role # rest) allPermissions w =
     (case getPermissions env (ur_role_id role) w of
        (Inl err, w') \<Rightarrow> (Inl err, w')
      | (Inr perms, w') \<Rightarrow>
          getUserPermissions_loop env rest
            (allPermissions @ map (userPermission_of env) perms) w')"

definition getUserPermissions ::
  "'r env \<Rightarrow> string \<Rightarrow> cache \<Rightarrow> 'r world
     \<Rightarrow> (error + UserPermission list) \<times> cache \<times> 'r world" where
  "getUserPermissions env userId c w =
     (case getCachedPermissions env userId c (snd w) of
        (Some cached, c') \<Rightarrow> (Inr cached, c', w)
      | (None, c') \<Rightarrow>
          (case getUserRoles env userId w of
             (Inl err, w1) \<Rightarrow> (Inr [], c', w1)
           | (Inr roles, w1) \<Rightarrow>
               (case getUserPermissions_loop env roles [] w1 of
                  (Inl err, w2) \<Rightarrow> (Inr [], c', w2)
                | (Inr allPermissions, w2) \<Rightarrow>
                    (Inr allPermissions,
                     setCachedPermissions env userId allPermissions c' (snd w2), w2))))"

text \<open>\<open>if (resource && ...)\<close>: an absent and an empty resource both skip the check.\<close>

definition permission_matches ::
  "string \<Rightarrow> string \<Rightarrow> string option \<Rightarrow> UserPermission \<Rightarrow> bool" where
  "permission_matches moduleCode action resource perm =
     (if up_module_code perm \<noteq> VStr ''*'' \<and> up_module_code perm \<noteq> VStr moduleCode then False
      else if up_action perm \<noteq> VStr ''*'' \<and> up_action perm \<noteq> VStr action then False
      else if (case resource of
                 Some res \<Rightarrow> res \<noteq> [] \<and> up_resource perm \<noteq> VStr ''*''
                              \<and> up_resource perm \<noteq> VStr res
               | None \<Rightarrow> False) then False
      else True)"

definition hasPermission ::
  "'r env \<Rightarrow> string \<Rightarrow> string \<Rightarrow> string \<Rightarrow> string option \<Rightarrow> cache \<Rightarrow> 'r world
     \<Rightarrow> (error + bool) \<times> cache \<times> 'r world" where
  "hasPermission env userId moduleCode action resource c w =
     (case getUserPermissions env userId c w of
        (Inl err, c', w') \<Rightarrow> (Inr False, c', w')
      | (Inr perms, c', w') \<Rightarrow>
          (Inr (list_ex (permission_matches moduleCode action resource) perms), c', w'))"

definition canAccessModule ::
  "'r env \<Rightarrow> string \<Rightarrow> string \<Rightarrow> cache \<Rightarrow> 'r world \<Rightarrow> (error + bool) \<times> cache \<times> 'r world" where
  "canAccessModule env userId moduleCode c w =
     (case getUserPermissions env userId c w of
        (Inl err, c', w') \<Rightarrow> (Inr False, c', w')
      | (Inr perms, c', w') \<Rightarrow>
          (Inr (list_ex (\<lambda>perm. up_module_code perm = VStr ''*''
                                  \<or> up_module_code perm = VStr moduleCode) perms), c', w'))"

text \<open>A \<open>Set\<close> keeps its elements in insertion order.\<close>

definition Set_add :: "'a \<Rightarrow> 'a list \<Rightarrow> 'a list" where
  "Set_add x xs = (if x \<in> set xs then xs else xs @ [x])"

fun getUserModules_loop ::
  "'r env \<Rightarrow> UserPermission list \<Rightarrow> jsval list \<Rightarrow> 'r world
     \<Rightarrow> (error + jsval list) \<times> 'r world" where
  "getUserModules_loop env [] moduleCodes w = (Inr moduleCodes, w)"
| "getUserModules_loop env (perm # rest) moduleCodes w =
     (if up_module_code perm = VStr ''*'' then
        (case getActiveModules env w of
           (Inl err, w') \<Rightarrow> (Inl err, w')
         | (Inr allModules, w') \<Rightarrow> (Inr (map m_module_code allModules), w'))
      else getUserModules_loop env rest (Set_add (up_module_code perm) moduleCodes) w)"

definition getUserModules ::
  "'r env \<Rightarrow> string \<Rightarrow> cache \<Rightarrow> 'r world \<Rightarrow> (error + jsval list) \<times> cache \<times> 'r world" where
  "getUserModules env userId c w =
     (case getUserPermissions env userId c w of
        (Inl err, c', w') \<Rightarrow> (Inr [], c', w')
      | (Inr perms, c', w') \<Rightarrow>
          (case getUserModules_loop env perms [] w' of
             (Inl err, w'') \<Rightarrow> (Inr [], c', w'')
           | (Inr codes, w'') \<Rightarrow> (Inr codes, c', w'')))"

definition hasRole :: "'r env \<Rightarrow> string \<Rightarrow> string \<Rightarrow> 'r world \<Rightarrow> (error + bool) \<times> 'r world" where
  "hasRole env userId roleCode w =
     (case getUserRoles env userId w of
        (Inl err, w') \<Rightarrow> (Inr False, w')
      | (Inr roles, w') \<Rightarrow> (Inr (list_ex (\<lambda>r. ur_role_code r = VStr roleCode) roles), w'))"

text \<open>\<open>||\<close> evaluates its right operand only when the left one is false.\<close>

definition isAdmin :: "'r env \<Rightarrow> string \<Rightarrow> 'r world \<Rightarrow> (error + bool) \<times> 'r world" where
  "isAdmin env userId w =
     (case hasRole env userId ''SUPER_ADMIN'' w of
        (Inl err, w') \<Rightarrow> (Inl err, w')
      | (Inr True, w') \<Rightarrow> (Inr True, w')
      | (Inr False, w') \<Rightarrow> hasRole env userId ''ADMIN'' w')"

section \<open>Role management\<close>




section \<open>An in-memory spreadsheet\<close>

text \<open>
  A small instance of the outside world, on which the code above can be run: the sheets
  by name, a clock, a counter for fresh identifiers, an outage that makes every API call
  fail with the given error, and the number of API calls made so far.
\<close>

record mem =
  sheets :: "(string \<times> jsval list list) list"
  clock :: nat
  next_id :: nat
  outage :: "error option"
  api_calls :: nat

definition mem_call :: "(mem \<Rightarrow> 'a \<times> mem) \<Rightarrow> mem \<Rightarrow> (error + 'a) \<times> mem" where
  "mem_call f r =
     (let r1 = r\<lparr>api_calls := api_calls r + 1\<rparr>
      in case outage r of
           Some err \<Rightarrow> (Inl err, r1)
         | None \<Rightarrow> (case f r1 of (v, r2) \<Rightarrow> (Inr v, r2)))"

definition mem_get :: "string \<Rightarrow> mem \<Rightarrow> (error + jsval list list option) \<times> mem" where
  "mem_get rg = mem_call (\<lambda>r. (map_of (sheets r) rg, r))"

definition mem_append :: "string \<Rightarrow> jsval list list \<Rightarrow> mem \<Rightarrow> (error + unit) \<times> mem" where
  "mem_append sheetName vals =
     mem_call (\<lambda>r. ((), r\<lparr>sheets := map (\<lambda>(nm, rs). if nm = sheetName then (nm, rs @ vals)
                                                   else (nm, rs)) (sheets r)\<rparr>))"

text \<open>Reading a run of ASCII decimal digits, for the row number of a range.\<close>

definition digit_val :: "char \<Rightarrow> nat option" where
  "digit_val ch = map_of (zip ''0123456789'' [0, 1, 2, 3, 4, 5, 6, 7, 8, 9]) ch"

definition is_digit :: "char \<Rightarrow> bool" where
  "is_digit ch = (digit_val ch \<noteq> None)"

definition digits_value :: "string \<Rightarrow> nat" where
  "digits_value ds = foldl (\<lambda>acc ch. acc * 10 + the (digit_val ch)) 0 ds"

definition parse_digits :: "string \<Rightarrow> nat option" where
  "parse_digits s =
     (let ds = takeWhile is_digit s
      in if ds = [] then None else Some (digits_value ds))"

definition a1_sheet :: "string \<Rightarrow> string" where
  "a1_sheet rg = takeWhile (\<lambda>ch. ch \<noteq> CHR ''!'') rg"

definition a1_row :: "string \<Rightarrow> nat" where
  "a1_row rg =
     (case parse_digits (dropWhile (\<lambda>ch. \<not> is_digit ch)
                              (dropWhile (\<lambda>ch. ch \<noteq> CHR ''!'') rg)) of
        Some n \<Rightarrow> n
      | None \<Rightarrow> 0)"

definition mem_update :: "string \<Rightarrow> jsval list list \<Rightarrow> mem \<Rightarrow> (error + unit) \<times> mem" where
  "mem_update rg vals =
     mem_call (\<lambda>r. ((), r\<lparr>sheets := map (\<lambda>(nm, rs).
                        if nm = a1_sheet rg
                        then (nm, (case vals of [] \<Rightarrow> rs | v # vs \<Rightarrow> rs[a1_row rg - 1 := v]))
                        else (nm, rs)) (sheets r)\<rparr>))"

text \<open>
  The \<open>parseInt\<close> of this world is JavaScript's on a string of one to fifteen decimal
  digits, which it reads as that integer; on every other value it is a stand-in that
  gives \<open>NaN\<close>.
\<close>

definition mem_parseInt :: "jsval \<Rightarrow> number" where
  "mem_parseInt v =
     (case v of
        VStr s \<Rightarrow>
          (if s \<noteq> [] \<and> list_all is_digit s \<and> length s \<le> 15
           then Finite (int (digits_value s))
           else NaN)
      | _ \<Rightarrow> NaN)"

definition mem_env :: "mem env" where
  "mem_env =
     \<lparr>values_get = mem_get, values_update = mem_update, values_append = mem_append,
      Date_now = clock,
      setTimeout = (\<lambda>ms r. r\<lparr>clock := clock r + ms\<rparr>),
      randomUUID = (\<lambda>r. (''id-'' @ string_of_nat (next_id r), r\<lparr>next_id := next_id r + 1\<rparr>)),
      toISOString = (\<lambda>r. ''t'' @ string_of_nat (clock r)),
      JSON_parse = (\<lambda>v. if v = VStr ''{}'' then Some (JObj []) else None),
      parseInt = mem_parseInt\<rparr>"

text \<open>An environment whose every read fails, whatever the state of the world.\<close>

definition down_env :: "mem env" where
  "down_env =
     mem_env\<lparr>values_get :=
       (\<lambda>rg r. (Inl (Error ''socket hang up'' (Some ''ECONNRESET'') None), r))\<rparr>"

text \<open>
  The scenario of the specification: role \<open>ADMIN\<close> (id \<open>r1\<close>) is granted one permission
  and user \<open>u1\<close> holds one active assignment to it, with the given cell in \<open>expires_at\<close>.
\<close>

definition ts :: jsval where
  "ts = VStr ''2024-01-01T00:00:00.000Z''"

definition roles_sheet :: "jsval list list" where
  "roles_sheet =
     [[VStr ''role_id'', VStr ''role_code'', VStr ''role_name'', VStr ''description'',
       VStr ''is_active'', VStr ''created_at'', VStr ''updated_at''],
      [VStr ''r1'', VStr ''ADMIN'', VStr ''Administrator'', VStr ''Admin role'',
       VStr ''TRUE'', ts, ts],
      [VStr ''r2'', VStr ''SUPER_ADMIN'', VStr ''Super Administrator'', VStr ''All access'',
       VStr ''TRUE'', ts, ts]]"

definition assignments_header :: "jsval list" where
  "assignments_header =
     [VStr ''assignment_id'', VStr ''user_id'', VStr ''role_id'', VStr ''site_code'',
      VStr ''assigned_by'', VStr ''assigned_at'', VStr ''expires_at'', VStr ''is_active'']"

definition assignment_row :: "string \<Rightarrow> string \<Rightarrow> string \<Rightarrow> string \<Rightarrow> jsval list" where
  "assignment_row aid uid rid expires =
     [VStr aid, VStr uid, VStr rid, VStr [], VStr ''admin'', ts, VStr expires, VStr ''TRUE'']"

definition permissions_header :: "jsval list" where
  "permissions_header =
     [VStr ''permission_id'', VStr ''role_id'', VStr ''module_code'', VStr ''action'',
      VStr ''resource'', VStr ''conditions'', VStr ''is_active'', VStr ''created_at'',
      VStr ''updated_at'']"

definition permission_row ::
  "string \<Rightarrow> string \<Rightarrow> string \<Rightarrow> string \<Rightarrow> string \<Rightarrow> jsval list" where
  "permission_row pid rid m a res =
     [VStr pid, VStr rid, VStr m, VStr a, VStr res, VStr [], VStr ''TRUE'', ts, ts]"

definition modules_sheet :: "jsval list list" where
  "modules_sheet =
     [[VStr ''module_id'', VStr ''module_code'', VStr ''module_name'', VStr ''description'',
       VStr ''icon'', VStr ''route'', VStr ''is_active'', VStr ''sort_order'',
       VStr ''created_at'', VStr ''updated_at''],
      [VStr ''m1'', VStr ''WMS'', VStr ''Warehouse'', VStr [], VStr ''wms'', VStr ''/wms'',
       VStr ''TRUE'', VStr ''2'', ts, ts],
      [VStr ''m2'', VStr ''HR'', VStr ''People'', VStr [], VStr ''hr'', VStr ''/hr'',
       VStr ''true'', VStr ''1'', ts, ts],
      [VStr ''m3'', VStr ''OLD'', VStr ''Retired'', VStr [], VStr ''old'', VStr ''/old'',
       VStr ''FALSE'', VStr ''0'', ts, ts]]"

definition store_sheets :: "jsval list list \<Rightarrow> jsval list \<Rightarrow> (string \<times> jsval list list) list" where
  "store_sheets assignment_rows perm =
     [(''ROLES'', roles_sheet),
      (''ROLE_ASSIGNMENTS'', assignments_header # assignment_rows),
      (''PERMISSIONS'', [permissions_header, perm]),
      (''MODULES'', modules_sheet),
      (''SYSTEM_LOG'', [[VStr ''log_id'']])]"

definition scenario_sheets ::
  "string \<Rightarrow> jsval list \<Rightarrow> (string \<times> jsval list list) list" where
  "scenario_sheets expires perm = store_sheets [assignment_row ''a1'' ''u1'' ''r1'' expires] perm"

definition mem_at :: "(string \<times> jsval list list) list \<Rightarrow> nat \<Rightarrow> mem" where
  "mem_at shs t = \<lparr>sheets = shs, clock = t, next_id = 1, outage = None, api_calls = 0\<rparr>"

text \<open>An instant in September 2026.\<close>

definition t0 :: nat where
  "t0 = 1790000000000"

section \<open>Properties stated by the specification\<close>

text \<open>
  What holds of the breaker between two calls: it is never left half open, it is closed
  only below the failure threshold, and when open it has reached the threshold and carries
  the instant of the next attempt, a cool-down after some reading of the clock.
\<close>

definition breaker_inv :: "CircuitBreaker \<Rightarrow> bool" where
  "breaker_inv cb =
     (case state cb of
        CLOSED \<Rightarrow> failures cb < threshold
      | OPEN \<Rightarrow> threshold \<le> failures cb
                 \<and> (case nextAttempt cb of Some t \<Rightarrow> timeout \<le> t | None \<Rightarrow> False)
      | HALF_OPEN \<Rightarrow> False)"

text \<open>
  The matching rule in the words of the specification: module and action match exactly
  or by the wildcard, and so does the resource when one is given.
\<close>

definition spec_permission_matches ::
  "string \<Rightarrow> string \<Rightarrow> string option \<Rightarrow> UserPermission \<Rightarrow> bool" where
  "spec_permission_matches moduleCode action resource perm =
     ((up_module_code perm = VStr moduleCode \<or> up_module_code perm = VStr ''*'')
      \<and> (up_action perm = VStr action \<or> up_action perm = VStr ''*'')
      \<and> (case resource of
            None \<Rightarrow> True
          | Some res \<Rightarrow> up_resource perm = VStr res \<or> up_resource perm = VStr ''*''))"

text \<open>The resource the code takes as given: an empty string counts as none.\<close>

definition given_resource :: "string option \<Rightarrow> string option" where
  "given_resource resource =
     (case resource of None \<Rightarrow> None | Some res \<Rightarrow> if res = [] then None else Some res)"

section \<open>Scenario worlds\<close>

text \<open>Concrete breakers and an outage of the in-memory spreadsheet.\<close>

definition err503 :: error where
  "err503 = Error ''The service is currently unavailable.'' None (Some 503)"

definition outage_mem :: "nat \<Rightarrow> nat \<Rightarrow> mem" where
  "outage_mem t n = \<lparr>sheets = [], clock = t, next_id = 1, outage = Some err503, api_calls = n\<rparr>"

definition cb_closed :: "nat \<Rightarrow> CircuitBreaker" where
  "cb_closed k = \<lparr>failures = k, state = CLOSED, nextAttempt = None\<rparr>"

definition cb_open :: "nat \<Rightarrow> nat \<Rightarrow> CircuitBreaker" where
  "cb_open k t = \<lparr>failures = k, state = OPEN, nextAttempt = Some t\<rparr>"

definition read_roles :: "mem \<Rightarrow> (error + jsval list list) \<times> mem" where
  "read_roles = retryWithBackoff mem_env (api_read mem_env (fullRange ''ROLES'' None))"

definition grant :: "string \<Rightarrow> string \<Rightarrow> string \<Rightarrow> jsval list" where
  "grant m a res = permission_row ''p1'' ''r1'' m a res"

definition world0 :: "string \<Rightarrow> jsval list \<Rightarrow> mem world" where
  "world0 expires perm = (new_CircuitBreaker, mem_at (scenario_sheets expires perm) t0)"

definition granted :: "string \<Rightarrow> string \<Rightarrow> string \<Rightarrow> UserPermission" where
  "granted m a res =
     \<lparr>up_module_code = VStr m, up_action = VStr a, up_resource = VStr res,
      up_conditions = JObj []\<rparr>"

definition admin_role :: UserRole where
  "admin_role =
     \<lparr>ur_role_id = VStr ''r1'', ur_role_code = VStr ''ADMIN'',
      ur_role_name = VStr ''Administrator'', ur_site_code = VUndefined\<rparr>"




text \<open>A system log event, and a world in which the storage is down.\<close>

definition log0 :: SystemLog where
  "log0 =
     \<lparr>sl_log_id = VUndefined, sl_timestamp = VUndefined, sl_level = VStr ''ERROR'',
      sl_user_id = VStr ''u1'', sl_module_code = VUndefined, sl_action = VUndefined,
      sl_message = VStr ''Sheets read failed'', sl_details = VUndefined,
      sl_correlation_id = VUndefined, sl_ip_address = VUndefined,
      sl_user_agent = VUndefined\<rparr>"

definition world_outage :: "mem world" where
  "world_outage =
     (new_CircuitBreaker,
      (mem_at (scenario_sheets [] (grant ''HR'' ''create'' ''*'')) t0)\<lparr>outage := Some err503\<rparr>)"

definition world_recovered :: "mem world" where
  "world_recovered =
     (cb_closed 1, mem_at (scenario_sheets [] (grant ''HR'' ''create'' ''*'')) (t0 + 1000))"

section \<open>Evaluation rules\<close>

declare retry_from.simps [simp del]
declare string_of_nat.simps [simp del]

section \<open>Boolean cells\<close>

lemma toUpperChar_T: "toUpperChar ch = CHR ''T'' \<longleftrightarrow> ch = CHR ''T'' \<or> ch = CHR ''t''"
  by (simp add: toUpperChar_def)

lemma toUpperChar_R: "toUpperChar ch = CHR ''R'' \<longleftrightarrow> ch = CHR ''R'' \<or> ch = CHR ''r''"
  by (simp add: toUpperChar_def)

lemma toUpperChar_U: "toUpperChar ch = CHR ''U'' \<longleftrightarrow> ch = CHR ''U'' \<or> ch = CHR ''u''"
  by (simp add: toUpperChar_def)

lemma toUpperChar_E: "toUpperChar ch = CHR ''E'' \<longleftrightarrow> ch = CHR ''E'' \<or> ch = CHR ''e''"
  by (simp add: toUpperChar_def)

lemma map_eq_four:
  "map f s = [w, x, y, z] \<longleftrightarrow>
     (\<exists>a b c d. s = [a, b, c, d] \<and> f a = w \<and> f b = x \<and> f c = y \<and> f d = z)"
proof (cases s)
  case Nil
  then show ?thesis by simp
next
  case s0: (Cons a s1)
  show ?thesis
  proof (cases s1)
    case Nil
    with s0 show ?thesis by simp
  next
    case s1: (Cons b s2)
    show ?thesis
    proof (cases s2)
      case Nil
      with s0 s1 show ?thesis by simp
    next
      case s2: (Cons c s3)
      show ?thesis
      proof (cases s3)
        case Nil
        with s0 s1 s2 show ?thesis by simp
      next
        case (Cons d s4)
        with s0 s1 s2 show ?thesis by (cases s4) auto
      qed
    qed
  qed
qed

lemma toUpperCase_TRUE: "toUpperCase s = ''TRUE'' \<longleftrightarrow> is_true_token s"
  unfolding toUpperCase_def is_true_token_def map_eq_four
  by (simp add: toUpperChar_T toUpperChar_R toUpperChar_U toUpperChar_E)

lemma parseBoolean_spec: "parseBoolean v = spec_true_cell v"
  by (cases v) (auto simp: spec_true_cell_def toUpperCase_TRUE)

text \<open>
  Claim C10. A cell deserializes to true exactly when it is the boolean true or a string
  equal to TRUE up to letter case; an absent cell, null, the empty string and every number
  deserialize to false. The active flag of a role assignment, a role, a module and a
  permission is this function applied to the flag's cell of the row.
\<close>

theorem parseBoolean_true_iff:
  "parseBoolean v = spec_true_cell v
   \<and> \<not> parseBoolean VUndefined \<and> \<not> parseBoolean VNull \<and> \<not> parseBoolean (VStr [])
   \<and> \<not> parseBoolean (VNum n) \<and> \<not> parseBoolean (VBool False)
   \<and> ra_is_active (mapRowToRoleAssignment row) = spec_true_cell (row_at row 7)
   \<and> r_is_active (mapRowToRole row) = spec_true_cell (row_at row 4)
   \<and> m_is_active (mapRowToModule env row) = spec_true_cell (row_at row 6)
   \<and> p_is_active (mapRowToPermission row) = spec_true_cell (row_at row 6)
   \<and> row_at [] 7 = VUndefined"
  by (simp add: parseBoolean_spec [symmetric] mapRowToRoleAssignment_def mapRowToRole_def
      mapRowToModule_def mapRowToPermission_def toUpperCase_def row_at_def)

section \<open>Circuit breaker\<close>

lemma breaker_inv_new: "breaker_inv new_CircuitBreaker"
  by (simp add: breaker_inv_def new_CircuitBreaker_def threshold_def)

lemma breaker_inv_execute:
  assumes "breaker_inv cb"
  shows "breaker_inv (fst (snd (execute env fn (cb, r))))"
proof (cases "state cb = OPEN \<and> cooling_down env cb r")
  case True
  with assms show ?thesis by (simp add: execute_def)
next
  case False
  obtain res r' where fn: "fn r = (res, r')" by (cases "fn r")
  show ?thesis
  proof (cases res)
    case (Inr v)
    with False fn show ?thesis
      by (auto simp: execute_def onSuccess_def breaker_inv_def threshold_def)
  next
    case (Inl err)
    with False fn assms show ?thesis
      by (cases "state cb")
        (auto simp: execute_def onFailure_def breaker_inv_def threshold_def timeout_def Let_def
          split: option.splits)
  qed
qed

lemma execute_failures_once:
  "failures (fst (snd (execute env fn (cb, r)))) \<in> {0, failures cb, failures cb + 1}"
  by (cases "fn r")
    (auto simp: execute_def onSuccess_def onFailure_def Let_def split: sum.splits)

text \<open>
  Claim C6. The breaker starts closed with no failure counted. Between calls it is closed
  below the threshold of 5 failures or open with a pending next attempt, never half open.
  A failing call on a closed breaker counts one failure and opens the breaker exactly when
  the count reaches 5, setting the next attempt 60 seconds after the failure; a succeeding
  call resets the count. While open and before the next attempt is due, a call fails with
  the unavailable error, leaving breaker and world untouched whatever the wrapped function
  is. Once the next attempt is due the call goes through: success closes the breaker with
  the count reset, failure reopens it with a new cool-down. A read through the client
  changes the count by one step at most, however many attempts the retry loop makes.
\<close>

theorem circuit_breaker_state_machine:
  assumes "breaker_inv cb"
  shows "breaker_inv new_CircuitBreaker \<and> state new_CircuitBreaker = CLOSED
    \<and> failures new_CircuitBreaker = 0
    \<and> breaker_inv (fst (snd (execute env fn (cb, r))))
    \<and> (state cb = CLOSED \<longrightarrow>
          (\<forall>err r'. fn r = (Inl err, r') \<longrightarrow>
             execute env fn (cb, r) =
               (Inl err,
                (if failures cb + 1 = threshold
                 then cb\<lparr>failures := threshold, state := OPEN,
                         nextAttempt := Some (Date_now env r' + timeout)\<rparr>
                 else cb\<lparr>failures := failures cb + 1\<rparr>), r'))
          \<and> (\<forall>v r'. fn r = (Inr v, r') \<longrightarrow>
                execute env fn (cb, r) = (Inr v, cb\<lparr>failures := 0\<rparr>, r')))
    \<and> (state cb = OPEN \<longrightarrow>
          (\<exists>t. nextAttempt cb = Some t
             \<and> (Date_now env r < t \<longrightarrow>
                   execute env fn (cb, r) = (Inl breaker_open_error, cb, r))
             \<and> (t \<le> Date_now env r \<longrightarrow>
                   (\<forall>v r'. fn r = (Inr v, r') \<longrightarrow>
                      execute env fn (cb, r) =
                        (Inr v, cb\<lparr>failures := 0, state := CLOSED\<rparr>, r'))
                   \<and> (\<forall>err r'. fn r = (Inl err, r') \<longrightarrow>
                         execute env fn (cb, r) =
                           (Inl err, cb\<lparr>failures := failures cb + 1, state := OPEN,
                              nextAttempt := Some (Date_now env r' + timeout)\<rparr>, r')))))
    \<and> SheetsClient_read env sheetName rng (cb, r) =
          execute env (retryWithBackoff env (api_read env (fullRange sheetName rng))) (cb, r)
    \<and> failures (fst (snd (SheetsClient_read env sheetName rng (cb, r))))
          \<in> {0, failures cb, failures cb + 1}"
proof -
  have p1: "breaker_inv new_CircuitBreaker" "state new_CircuitBreaker = CLOSED"
    "failures new_CircuitBreaker = 0"
    by (simp_all add: breaker_inv_new) (simp_all add: new_CircuitBreaker_def)
  have p2: "breaker_inv (fst (snd (execute env fn (cb, r))))"
    by (rule breaker_inv_execute [OF assms])
  have p3: "state cb = CLOSED \<longrightarrow>
          (\<forall>err r'. fn r = (Inl err, r') \<longrightarrow>
             execute env fn (cb, r) =
               (Inl err,
                (if failures cb + 1 = threshold
                 then cb\<lparr>failures := threshold, state := OPEN,
                         nextAttempt := Some (Date_now env r' + timeout)\<rparr>
                 else cb\<lparr>failures := failures cb + 1\<rparr>), r'))
          \<and> (\<forall>v r'. fn r = (Inr v, r') \<longrightarrow>
                execute env fn (cb, r) = (Inr v, cb\<lparr>failures := 0\<rparr>, r'))"
    using assms
    by (auto simp: execute_def onFailure_def onSuccess_def Let_def breaker_inv_def)
  have p4: "state cb = OPEN \<longrightarrow>
          (\<exists>t. nextAttempt cb = Some t
             \<and> (Date_now env r < t \<longrightarrow>
                   execute env fn (cb, r) = (Inl breaker_open_error, cb, r))
             \<and> (t \<le> Date_now env r \<longrightarrow>
                   (\<forall>v r'. fn r = (Inr v, r') \<longrightarrow>
                      execute env fn (cb, r) =
                        (Inr v, cb\<lparr>failures := 0, state := CLOSED\<rparr>, r'))
                   \<and> (\<forall>err r'. fn r = (Inl err, r') \<longrightarrow>
                         execute env fn (cb, r) =
                           (Inl err, cb\<lparr>failures := failures cb + 1, state := OPEN,
                              nextAttempt := Some (Date_now env r' + timeout)\<rparr>, r'))))"
  proof
    assume op: "state cb = OPEN"
    with assms obtain t where t: "nextAttempt cb = Some t" "0 < t" "threshold \<le> failures cb"
      by (auto simp: breaker_inv_def timeout_def split: option.splits)
    have "Date_now env r < t \<longrightarrow> execute env fn (cb, r) = (Inl breaker_open_error, cb, r)"
      using op t(1) t(2) by (simp add: execute_def cooling_down_def)
    moreover have "\<forall>v r'. t \<le> Date_now env r \<longrightarrow> fn r = (Inr v, r') \<longrightarrow>
        execute env fn (cb, r) = (Inr v, cb\<lparr>failures := 0, state := CLOSED\<rparr>, r')"
      using op t(1) by (simp add: execute_def cooling_down_def onSuccess_def)
    moreover have "\<forall>err r'. t \<le> Date_now env r \<longrightarrow> fn r = (Inl err, r') \<longrightarrow>
        execute env fn (cb, r) =
          (Inl err, cb\<lparr>failures := failures cb + 1, state := OPEN,
             nextAttempt := Some (Date_now env r' + timeout)\<rparr>, r')"
      using op t(1) t(3) by (simp add: execute_def cooling_down_def onFailure_def Let_def)
    ultimately show "\<exists>t. nextAttempt cb = Some t
             \<and> (Date_now env r < t \<longrightarrow>
                   execute env fn (cb, r) = (Inl breaker_open_error, cb, r))
             \<and> (t \<le> Date_now env r \<longrightarrow>
                   (\<forall>v r'. fn r = (Inr v, r') \<longrightarrow>
                      execute env fn (cb, r) =
                        (Inr v, cb\<lparr>failures := 0, state := CLOSED\<rparr>, r'))
                   \<and> (\<forall>err r'. fn r = (Inl err, r') \<longrightarrow>
                         execute env fn (cb, r) =
                           (Inl err, cb\<lparr>failures := failures cb + 1, state := OPEN,
                              nextAttempt := Some (Date_now env r' + timeout)\<rparr>, r')))"
      using t(1) by simp
  qed
  have p5: "SheetsClient_read env sheetName rng (cb, r) =
          execute env (retryWithBackoff env (api_read env (fullRange sheetName rng))) (cb, r)"
    by (simp add: SheetsClient_read_def)
  have p6: "failures (fst (snd (SheetsClient_read env sheetName rng (cb, r))))
          \<in> {0, failures cb, failures cb + 1}"
    unfolding SheetsClient_read_def by (rule execute_failures_once)
  show ?thesis
    by (intro conjI p1 p2 p3 p4 p5 p6)
qed

theorem circuit_breaker_state_machine_witness:
  "breaker_inv (cb_closed 4)
   \<and> execute mem_env read_roles (cb_closed 4, outage_mem t0 0)
       = (Inl err503, cb_open 5 (t0 + 60700), outage_mem (t0 + 700) 3)
   \<and> execute mem_env read_roles (cb_closed 3, outage_mem t0 0)
       = (Inl err503, cb_closed 4, outage_mem (t0 + 700) 3)
   \<and> execute mem_env read_roles (cb_closed 4, mem_at [(''ROLES'', roles_sheet)] t0)
       = (Inr roles_sheet, cb_closed 0, (mem_at [(''ROLES'', roles_sheet)] t0)\<lparr>api_calls := 1\<rparr>)
   \<and> breaker_inv (cb_open 5 (t0 + 60700))
   \<and> execute mem_env read_roles (cb_open 5 (t0 + 60700), outage_mem (t0 + 60699) 3)
       = (Inl breaker_open_error, cb_open 5 (t0 + 60700), outage_mem (t0 + 60699) 3)
   \<and> execute mem_env read_roles (cb_open 5 (t0 + 60700), outage_mem (t0 + 60700) 3)
       = (Inl err503, cb_open 6 (t0 + 121400), outage_mem (t0 + 61400) 6)
   \<and> execute mem_env read_roles
         (cb_open 5 (t0 + 60700), mem_at [(''ROLES'', roles_sheet)] (t0 + 60700))
       = (Inr roles_sheet, \<lparr>failures = 0, state = CLOSED, nextAttempt = Some (t0 + 60700)\<rparr>,
          (mem_at [(''ROLES'', roles_sheet)] (t0 + 60700))\<lparr>api_calls := 1\<rparr>)"
proof -
  have i4: "breaker_inv (cb_closed 4)" and i3: "breaker_inv (cb_closed 3)"
    and io: "breaker_inv (cb_open 5 (t0 + 60700))"
    by (simp_all add: breaker_inv_def cb_closed_def cb_open_def threshold_def timeout_def)
  have f0: "read_roles (outage_mem t0 0) = (Inl err503, outage_mem (t0 + 700) 3)"
    and f1: "read_roles (outage_mem (t0 + 60700) 3) = (Inl err503, outage_mem (t0 + 61400) 6)"
    and s0: "read_roles (mem_at [(''ROLES'', roles_sheet)] t0)
       = (Inr roles_sheet, (mem_at [(''ROLES'', roles_sheet)] t0)\<lparr>api_calls := 1\<rparr>)"
    and s1: "read_roles (mem_at [(''ROLES'', roles_sheet)] (t0 + 60700))
       = (Inr roles_sheet, (mem_at [(''ROLES'', roles_sheet)] (t0 + 60700))\<lparr>api_calls := 1\<rparr>)"
    by (simp_all add: read_roles_def retryWithBackoff_def retry_from.simps api_read_def
        fullRange_def isRetryable_def delays_def mem_env_def mem_get_def mem_call_def
        mem_at_def outage_mem_def err503_def)
  have dn: "Date_now mem_env (outage_mem t n) = t" "Date_now mem_env (mem_at shs t) = t" for t n shs
    by (simp_all add: mem_env_def outage_mem_def mem_at_def)
  note cbs = cb_closed_def cb_open_def threshold_def timeout_def
  have a: "execute mem_env read_roles (cb_closed 4, outage_mem t0 0)
       = (Inl err503, cb_open 5 (t0 + 60700), outage_mem (t0 + 700) 3)"
    using circuit_breaker_state_machine [OF i4, of mem_env read_roles "outage_mem t0 0"]
    by (simp add: f0 dn cbs)
  have b: "execute mem_env read_roles (cb_closed 3, outage_mem t0 0)
       = (Inl err503, cb_closed 4, outage_mem (t0 + 700) 3)"
    using circuit_breaker_state_machine [OF i3, of mem_env read_roles "outage_mem t0 0"]
    by (simp add: f0 dn cbs)
  have c: "execute mem_env read_roles (cb_closed 4, mem_at [(''ROLES'', roles_sheet)] t0)
       = (Inr roles_sheet, cb_closed 0, (mem_at [(''ROLES'', roles_sheet)] t0)\<lparr>api_calls := 1\<rparr>)"
    using circuit_breaker_state_machine [OF i4, of mem_env read_roles
        "mem_at [(''ROLES'', roles_sheet)] t0"]
    by (simp add: s0 dn cbs)
  have d: "execute mem_env read_roles (cb_open 5 (t0 + 60700), outage_mem (t0 + 60699) 3)
       = (Inl breaker_open_error, cb_open 5 (t0 + 60700), outage_mem (t0 + 60699) 3)"
    using circuit_breaker_state_machine [OF io, of mem_env read_roles "outage_mem (t0 + 60699) 3"]
    by (simp add: dn cbs)
  have e: "execute mem_env read_roles (cb_open 5 (t0 + 60700), outage_mem (t0 + 60700) 3)
       = (Inl err503, cb_open 6 (t0 + 121400), outage_mem (t0 + 61400) 6)"
    using circuit_breaker_state_machine [OF io, of mem_env read_roles "outage_mem (t0 + 60700) 3"]
    by (simp add: f1 dn cbs)
  have f: "execute mem_env read_roles
         (cb_open 5 (t0 + 60700), mem_at [(''ROLES'', roles_sheet)] (t0 + 60700))
       = (Inr roles_sheet, \<lparr>failures = 0, state = CLOSED, nextAttempt = Some (t0 + 60700)\<rparr>,
          (mem_at [(''ROLES'', roles_sheet)] (t0 + 60700))\<lparr>api_calls := 1\<rparr>)"
    using circuit_breaker_state_machine [OF io, of mem_env read_roles
        "mem_at [(''ROLES'', roles_sheet)] (t0 + 60700)"]
    by (simp add: s1 dn cbs)
  from i4 io a b c d e f show ?thesis by simp
qed

section \<open>Fail-closed resolution\<close>

lemma getUserRoles_returns: "\<exists>roles w'. getUserRoles env userId w = (Inr roles, w')"
  by (auto simp: getUserRoles_def split: prod.splits sum.splits)

lemma getUserPermissions_returns:
  "\<exists>perms c' w'. getUserPermissions env userId c w = (Inr perms, c', w')"
  by (auto simp: getUserPermissions_def split: prod.splits sum.splits option.splits)

lemma getUserRoles_down:
  assumes "isl (fst (SheetsClient_read env ''ROLE_ASSIGNMENTS'' None w))"
  shows "fst (getUserRoles env userId w) = Inr []"
  using assms
  by (auto simp: getUserRoles_def getRoleAssignments_def split: prod.splits sum.splits)

lemma getUserPermissions_down:
  assumes "isl (fst (SheetsClient_read env ''ROLE_ASSIGNMENTS'' None w))" and "c userId = None"
  shows "fst (getUserPermissions env userId c w) = Inr []"
proof -
  obtain roles w1 where r: "getUserRoles env userId w = (Inr roles, w1)"
    using getUserRoles_returns by blast
  with getUserRoles_down [OF assms(1), of userId] have "roles = []" by simp
  with r assms(2) show ?thesis
    by (simp add: getUserPermissions_def getCachedPermissions_def)
qed

lemma read_down_env: "isl (fst (SheetsClient_read down_env sheetName rng w))"
proof -
  obtain cb r where w: "w = (cb, r)" by (cases w)
  have "\<exists>err r'. retryWithBackoff down_env (api_read down_env rg) r = (Inl err, r')" for rg
    by (simp add: retryWithBackoff_def retry_from.simps api_read_def down_env_def mem_env_def
        isRetryable_def)
  then obtain err r' where
    "retryWithBackoff down_env (api_read down_env (fullRange sheetName rng)) r = (Inl err, r')"
    by blast
  with w show ?thesis by (simp add: SheetsClient_read_def execute_def)
qed

text \<open>
  Claim C2. When every read of the storage layer raises and the cache holds no entry for
  the user, the three boolean checks return false and the three listings return the empty
  list; each of the six returns a value, not an error.
\<close>

theorem fail_closed_when_storage_raises:
  assumes "\<forall>sheetName w. isl (fst (SheetsClient_read env sheetName None w))"
    and "c userId = None"
  shows "fst (hasPermission env userId moduleCode action resource c w) = Inr False
    \<and> fst (canAccessModule env userId moduleCode c w) = Inr False
    \<and> fst (isAdmin env userId w) = Inr False
    \<and> fst (getUserRoles env userId w) = Inr []
    \<and> fst (getUserPermissions env userId c w) = Inr []
    \<and> fst (getUserModules env userId c w) = Inr []"
proof -
  have roles: "fst (getUserRoles env userId w') = Inr []" for w'
    by (rule getUserRoles_down) (use assms(1) in blast)
  have perms: "fst (getUserPermissions env userId c w) = Inr []"
    by (rule getUserPermissions_down) (use assms in blast)+
  have role: "fst (hasRole env userId roleCode w') = Inr False" for roleCode w'
    using roles [of w'] by (auto simp: hasRole_def split: prod.splits sum.splits)
  have admin: "fst (isAdmin env userId w) = Inr False"
    using role [of "''SUPER_ADMIN''" w] role [of "''ADMIN''"]
    by (auto simp: isAdmin_def split: prod.splits sum.splits bool.splits)
  have hp: "fst (hasPermission env userId moduleCode action resource c w) = Inr False"
    using perms by (auto simp: hasPermission_def split: prod.splits sum.splits)
  have cam: "fst (canAccessModule env userId moduleCode c w) = Inr False"
    using perms by (auto simp: canAccessModule_def split: prod.splits sum.splits)
  have gum: "fst (getUserModules env userId c w) = Inr []"
    using perms by (auto simp: getUserModules_def split: prod.splits sum.splits)
  from hp cam admin roles perms gum show ?thesis by simp
qed

theorem fail_closed_when_storage_raises_witness:
  "Map.empty ''u1'' = (None :: CacheEntry option)
   \<and> isl (fst (SheetsClient_read down_env ''ROLE_ASSIGNMENTS'' None
                 (world0 [] (grant ''*'' ''*'' ''*''))))
   \<and> fst (hasPermission down_env ''u1'' ''HR'' ''create'' (Some ''candidate'') Map.empty
            (world0 [] (grant ''*'' ''*'' ''*''))) = Inr False
   \<and> fst (canAccessModule down_env ''u1'' ''HR'' Map.empty
            (world0 [] (grant ''*'' ''*'' ''*''))) = Inr False
   \<and> fst (isAdmin down_env ''u1''
            (world0 [] (grant ''*'' ''*'' ''*''))) = Inr False
   \<and> fst (getUserRoles down_env ''u1''
            (world0 [] (grant ''*'' ''*'' ''*''))) = Inr []
   \<and> fst (getUserPermissions down_env ''u1'' Map.empty
            (world0 [] (grant ''*'' ''*'' ''*''))) = Inr []
   \<and> fst (getUserModules down_env ''u1'' Map.empty
            (world0 [] (grant ''*'' ''*'' ''*''))) = Inr []"
proof -
  have down: "\<forall>sheetName w. isl (fst (SheetsClient_read down_env sheetName None w))"
    by (simp add: read_down_env)
  have none: "Map.empty ''u1'' = (None :: CacheEntry option)" by simp
  show ?thesis
    using fail_closed_when_storage_raises [OF down none, where moduleCode = "''HR''"
        and action = "''create''" and resource = "Some ''candidate''"
        and w = "world0 [] (grant ''*'' ''*'' ''*'')"]
      read_down_env [of "''ROLE_ASSIGNMENTS''" None]
    by simp
qed

section \<open>Running the scenario\<close>

lemmas client_defs = SheetsClient_read_def SheetsClient_write_def SheetsClient_append_def
  execute_def retryWithBackoff_def retry_from.simps api_read_def fullRange_def cooling_down_def
  onSuccess_def onFailure_def isRetryable_def delays_def threshold_def timeout_def

lemmas mem_defs = mem_env_def mem_get_def mem_append_def mem_update_def mem_call_def mem_at_def
  new_CircuitBreaker_def

lemmas row_defs = row_at_def or_undefined_def or_empty_def toUpperCase_def toUpperChar_def
  mapRowToRole_def mapRowToRoleAssignment_def mapRowToPermission_def mapRowToModule_def

lemmas scenario_defs = world0_def scenario_sheets_def store_sheets_def roles_sheet_def assignments_header_def
  assignment_row_def permissions_header_def permission_row_def grant_def ts_def

lemma scenario_roles:
  "getUserRoles mem_env ''u1'' (world0 expires perm) =
     (Inr [admin_role],
      new_CircuitBreaker, (mem_at (scenario_sheets expires perm) t0)\<lparr>api_calls := 2\<rparr>)"
  by (simp add: getUserRoles_def getRoleAssignments_def getRoleById_def getRoles_def
      userRole_of_def admin_role_def client_defs mem_defs row_defs scenario_defs)

lemma scenario_permissions_loop:
  "getUserPermissions_loop mem_env [admin_role] []
       (new_CircuitBreaker, (mem_at (scenario_sheets expires (grant m a res)) t0)\<lparr>api_calls := 2\<rparr>) =
     (Inr [granted m a res],
      new_CircuitBreaker, (mem_at (scenario_sheets expires (grant m a res)) t0)\<lparr>api_calls := 3\<rparr>)"
  by (simp add: getPermissions_def userPermission_of_def safeJsonParse_def admin_role_def
      granted_def client_defs mem_defs row_defs scenario_defs)

lemma Date_now_mem [simp]: "Date_now mem_env = clock"
  by (simp add: mem_env_def)

lemma clock_mem_at [simp]: "clock (mem_at shs t) = t"
  by (simp add: mem_at_def)

lemma scenario_permissions:
  "getUserPermissions mem_env ''u1'' Map.empty (world0 expires (grant m a res)) =
     (Inr [granted m a res],
      [''u1'' \<mapsto> \<lparr>permissions = [granted m a res], expiresAt = t0 + 300000\<rparr>],
      new_CircuitBreaker, (mem_at (scenario_sheets expires (grant m a res)) t0)\<lparr>api_calls := 3\<rparr>)"
  by (simp add: getUserPermissions_def getCachedPermissions_def setCachedPermissions_def
      CACHE_TTL_def scenario_roles scenario_permissions_loop
      del: getUserPermissions_loop.simps)

section \<open>Expiry of role assignments\<close>

text \<open>
  Claim C1, on the code: the assignment of user \<open>u1\<close> to role \<open>ADMIN\<close> is active and
  carries an expiry instant of the year 2000, the clock reads an instant of 2026, and
  \<open>getUserRoles\<close> returns the role. Neither \<open>getRoleAssignments\<close> nor \<open>getUserRoles\<close>
  reads \<open>expires_at\<close>.
\<close>

theorem expired_assignment_still_effective:
  "ra_expires_at (mapRowToRoleAssignment (assignment_row ''a1'' ''u1'' ''r1'' ''2000-01-01T00:00:00.000Z''))
     = VStr ''2000-01-01T00:00:00.000Z''
   \<and> Date_now mem_env (snd (world0 ''2000-01-01T00:00:00.000Z'' (grant ''HR'' ''create'' ''*''))) = t0
   \<and> fst (getUserRoles mem_env ''u1''
            (world0 ''2000-01-01T00:00:00.000Z'' (grant ''HR'' ''create'' ''*''))) = Inr [admin_role]"
  by (simp add: scenario_roles)
    (simp add: world0_def mapRowToRoleAssignment_def assignment_row_def row_at_def
      or_undefined_def)

section \<open>Permission checks\<close>

lemma permission_matches_spec:
  "permission_matches moduleCode action resource perm =
     spec_permission_matches moduleCode action (given_resource resource) perm"
  by (auto simp: permission_matches_def spec_permission_matches_def given_resource_def
      split: option.splits)

text \<open>
  Claim C3 as stated fails for an empty resource: the only permission of \<open>u1\<close> names the
  resource \<open>candidate\<close>, the check is made for the resource given as the empty string,
  which matches neither \<open>candidate\<close> nor the wildcard, and the code answers true.
\<close>

theorem hasPermission_empty_resource_counterexample:
  "fst (getUserPermissions mem_env ''u1'' Map.empty (world0 [] (grant ''HR'' ''create'' ''candidate'')))
     = Inr [granted ''HR'' ''create'' ''candidate'']
   \<and> \<not> spec_permission_matches ''HR'' ''create'' (Some []) (granted ''HR'' ''create'' ''candidate'')
   \<and> fst (hasPermission mem_env ''u1'' ''HR'' ''create'' (Some []) Map.empty
            (world0 [] (grant ''HR'' ''create'' ''candidate''))) = Inr True"
  by (simp add: hasPermission_def scenario_permissions permission_matches_def
      spec_permission_matches_def granted_def)

text \<open>
  Claim C3, amended. \<open>hasPermission\<close> returns true exactly when one of the permissions
  that \<open>getUserPermissions\<close> returns matches the module (exactly or by the wildcard), the
  action (exactly or by the wildcard) and, when a non-empty resource is given, the
  resource (exactly or by the wildcard); the three checks are independent. An absent and
  an empty resource are both unconstrained.
\<close>

theorem hasPermission_iff:
  assumes "getUserPermissions env userId c w = (Inr perms, c', w')"
  shows "hasPermission env userId moduleCode action resource c w =
           (Inr (\<exists>perm \<in> set perms.
                   spec_permission_matches moduleCode action (given_resource resource) perm),
            c', w')
    \<and> given_resource None = None \<and> given_resource (Some []) = None
    \<and> given_resource (Some (x # xs)) = Some (x # xs)"
  using assms
  by (simp add: hasPermission_def list_ex_iff permission_matches_spec given_resource_def)

theorem hasPermission_iff_witness:
  "getUserPermissions mem_env ''u1'' Map.empty (world0 [] (grant ''HR'' ''create'' ''*'')) =
     (Inr [granted ''HR'' ''create'' ''*''],
      [''u1'' \<mapsto> \<lparr>permissions = [granted ''HR'' ''create'' ''*''], expiresAt = t0 + 300000\<rparr>],
      new_CircuitBreaker,
      (mem_at (scenario_sheets [] (grant ''HR'' ''create'' ''*'')) t0)\<lparr>api_calls := 3\<rparr>)
   \<and> fst (hasPermission mem_env ''u1'' ''HR'' ''create'' (Some ''candidate'') Map.empty
            (world0 [] (grant ''HR'' ''create'' ''*''))) = Inr True
   \<and> fst (hasPermission mem_env ''u1'' ''WMS'' ''create'' None Map.empty
            (world0 [] (grant ''HR'' ''create'' ''*''))) = Inr False"
  using hasPermission_iff [OF scenario_permissions [of "[]" "''HR''" "''create''" "''*''"],
      where moduleCode = "''HR''" and action = "''create''" and resource = "Some ''candidate''"]
    hasPermission_iff [OF scenario_permissions [of "[]" "''HR''" "''create''" "''*''"],
      where moduleCode = "''WMS''" and action = "''create''" and resource = None]
  by (simp add: scenario_permissions spec_permission_matches_def given_resource_def granted_def)

section \<open>Accessible modules\<close>

lemma set_Set_add [simp]: "set (Set_add x xs) = insert x (set xs)"
  by (auto simp: Set_add_def)

lemma distinct_Set_add [simp]: "distinct (Set_add x xs) = distinct xs"
  by (simp add: Set_add_def)

lemma distinct_singleton:
  assumes "distinct xs" and "set xs = {x}"
  shows "xs = [x]"
proof (cases xs)
  case Nil
  with assms(2) show ?thesis by simp
next
  case (Cons y ys)
  with assms have "y = x" and "set ys \<subseteq> {x}" and "x \<notin> set ys" by auto
  then have "ys = []" by (cases ys) auto
  with Cons \<open>y = x\<close> show ?thesis by simp
qed

lemma getUserModules_loop_explicit:
  assumes "\<forall>p \<in> set perms. up_module_code p \<noteq> VStr ''*''"
  shows "\<exists>codes. getUserModules_loop env perms acc w = (Inr codes, w)
           \<and> set codes = set acc \<union> up_module_code ` set perms
           \<and> (distinct acc \<longrightarrow> distinct codes)"
  using assms
proof (induction perms arbitrary: acc)
  case Nil
  then show ?case by simp
next
  case (Cons p perms)
  from Cons.prems have "\<forall>q \<in> set perms. up_module_code q \<noteq> VStr ''*''" by simp
  from Cons.IH [OF this, of "Set_add (up_module_code p) acc"] Cons.prems
  show ?case by auto
qed

lemma getUserModules_loop_wildcard:
  assumes "\<exists>p \<in> set perms. up_module_code p = VStr ''*''"
  shows "getUserModules_loop env perms acc w =
           (case getActiveModules env w of
              (Inl err, w') \<Rightarrow> (Inl err, w')
            | (Inr allModules, w') \<Rightarrow> (Inr (map m_module_code allModules), w'))"
  using assms by (induction perms arbitrary: acc) auto

lemma set_sort_insert [simp]: "set (sort_insert gt x xs) = insert x (set xs)"
  by (induction xs) auto

lemma set_Array_sort [simp]: "set (Array_sort gt xs) = set xs"
  unfolding Array_sort_def by (induction xs) auto

lemma getActiveModules_read:
  "getActiveModules env w =
     (case SheetsClient_read env ''MODULES'' None w of
        (Inl err, w') \<Rightarrow> (Inl err, w')
      | (Inr rows, w') \<Rightarrow>
          (Inr (Array_sort by_sort_order
                  (filter m_is_active (map (mapRowToModule env) (drop 1 rows)))),
           w'))"
  by (simp add: getActiveModules_def getModules_def split: prod.splits sum.splits)

text \<open>
  What \<open>getUserModules\<close> makes of the permissions that \<open>getUserPermissions\<close> returns. If
  one of them has the wildcard as its module code, it reads the modules sheet and returns
  the codes of its active rows, sorted by their sort order: as a set, the codes of all
  active modules; if that read raises, it returns the empty list. If none has the
  wildcard, it returns the module codes of the permissions, each once, without reading
  the modules sheet.
\<close>

lemma getUserModules_of_permissions:
  assumes "getUserPermissions env userId c w = (Inr perms, c1, w1)"
  shows "((\<exists>p \<in> set perms. up_module_code p = VStr ''*'') \<longrightarrow>
            (\<forall>rows w2. SheetsClient_read env ''MODULES'' None w1 = (Inr rows, w2) \<longrightarrow>
               (\<exists>codes. getUserModules env userId c w = (Inr codes, c1, w2)
                  \<and> codes = map m_module_code (Array_sort by_sort_order
                               (filter m_is_active (map (mapRowToModule env) (drop 1 rows))))
                  \<and> set codes = m_module_code `
                        {m \<in> set (map (mapRowToModule env) (drop 1 rows)). m_is_active m}))
            \<and> (\<forall>err w2. SheetsClient_read env ''MODULES'' None w1 = (Inl err, w2) \<longrightarrow>
                  getUserModules env userId c w = (Inr [], c1, w2)))
    \<and> ((\<forall>p \<in> set perms. up_module_code p \<noteq> VStr ''*'') \<longrightarrow>
            (\<exists>codes. getUserModules env userId c w = (Inr codes, c1, w1)
               \<and> set codes = up_module_code ` set perms \<and> distinct codes))"
proof (intro conjI impI allI)
  fix rows w2
  assume wild: "\<exists>p \<in> set perms. up_module_code p = VStr ''*''"
    and rd: "SheetsClient_read env ''MODULES'' None w1 = (Inr rows, w2)"
  let ?ms = "Array_sort by_sort_order
      (filter m_is_active (map (mapRowToModule env) (drop 1 rows)))"
  have "getUserModules env userId c w = (Inr (map m_module_code ?ms), c1, w2)"
    using assms rd
    by (simp add: getUserModules_def getUserModules_loop_wildcard [OF wild]
        getActiveModules_read)
  moreover have "set (map m_module_code ?ms) =
      m_module_code ` {m \<in> set (map (mapRowToModule env) (drop 1 rows)). m_is_active m}"
    by auto
  ultimately show "\<exists>codes. getUserModules env userId c w = (Inr codes, c1, w2)
      \<and> codes = map m_module_code ?ms
      \<and> set codes = m_module_code `
            {m \<in> set (map (mapRowToModule env) (drop 1 rows)). m_is_active m}"
    by blast
next
  fix err w2
  assume wild: "\<exists>p \<in> set perms. up_module_code p = VStr ''*''"
    and rd: "SheetsClient_read env ''MODULES'' None w1 = (Inl err, w2)"
  show "getUserModules env userId c w = (Inr [], c1, w2)"
    using assms rd
    by (simp add: getUserModules_def getUserModules_loop_wildcard [OF wild]
        getActiveModules_read)
next
  assume none: "\<forall>p \<in> set perms. up_module_code p \<noteq> VStr ''*''"
  from getUserModules_loop_explicit [OF none, of env "[]" w1]
  obtain codes where "getUserModules_loop env perms [] w1 = (Inr codes, w1)"
    "set codes = up_module_code ` set perms" "distinct codes"
    by auto
  with assms show "\<exists>codes. getUserModules env userId c w = (Inr codes, c1, w1)
      \<and> set codes = up_module_code ` set perms \<and> distinct codes"
    by (simp add: getUserModules_def)
qed

lemma scenario_modules_read:
  "SheetsClient_read mem_env ''MODULES'' None
       (new_CircuitBreaker, (mem_at (scenario_sheets expires perm) t0)\<lparr>api_calls := 3\<rparr>) =
     (Inr modules_sheet,
      new_CircuitBreaker, (mem_at (scenario_sheets expires perm) t0)\<lparr>api_calls := 4\<rparr>)"
  by (simp add: client_defs mem_defs scenario_sheets_def store_sheets_def)

lemma scenario_active_modules:
  "map m_module_code (Array_sort by_sort_order
       (filter m_is_active (map (mapRowToModule mem_env) (drop 1 modules_sheet)))) =
     [VStr ''HR'', VStr ''WMS'']"
  by (simp add: modules_sheet_def mapRowToModule_def row_at_def toUpperCase_def toUpperChar_def
      parseInt_or_0_def mem_env_def mem_parseInt_def is_digit_def digit_val_def
      digits_value_def Array_sort_def by_sort_order_def ts_def)

lemma scenario_modules:
  "fst (getUserModules mem_env ''u1'' Map.empty (world0 expires (grant ''*'' ''*'' ''*'')))
     = Inr [VStr ''HR'', VStr ''WMS'']"
proof -
  have wild: "\<exists>p \<in> set [granted ''*'' ''*'' ''*'']. up_module_code p = VStr ''*''"
    by (simp add: granted_def)
  from getUserModules_of_permissions
      [OF scenario_permissions [of expires "''*''" "''*''" "''*''"]]
    wild scenario_modules_read scenario_active_modules
  show ?thesis by auto
qed

lemma scenario_modules_explicit:
  "fst (getUserModules mem_env ''u1'' Map.empty (world0 expires (grant ''HR'' ''create'' ''*'')))
     = Inr [VStr ''HR'']"
proof -
  have none: "\<forall>p \<in> set [granted ''HR'' ''create'' ''*'']. up_module_code p \<noteq> VStr ''*''"
    by (simp add: granted_def)
  from getUserModules_of_permissions
      [OF scenario_permissions [of expires "''HR''" "''create''" "''*''"]] none
  obtain codes where
    "fst (getUserModules mem_env ''u1'' Map.empty (world0 expires (grant ''HR'' ''create'' ''*'')))
       = Inr codes"
    "set codes = {VStr ''HR''}" "distinct codes"
    by (auto simp: granted_def)
  moreover from this have "codes = [VStr ''HR'']"
    by (simp add: distinct_singleton)
  ultimately show ?thesis by simp
qed

text \<open>
  Claim C5, on the code. The only role assignment of \<open>u1\<close> grants the wildcard on
  module, action and resource, is active, and carries an expiry instant of the year 2000;
  the clock reads an instant of 2026. The user has no effective permission, and
  \<open>getUserModules\<close> returns the codes of all active modules: the expired assignment still
  counts, as in claim C1, and its wildcard opens the full bypass.
\<close>

theorem expired_wildcard_still_bypasses:
  "ra_expires_at (mapRowToRoleAssignment (assignment_row ''a1'' ''u1'' ''r1'' ''2000-01-01T00:00:00.000Z''))
     = VStr ''2000-01-01T00:00:00.000Z''
   \<and> ra_is_active (mapRowToRoleAssignment (assignment_row ''a1'' ''u1'' ''r1'' ''2000-01-01T00:00:00.000Z''))
   \<and> Date_now mem_env (snd (world0 ''2000-01-01T00:00:00.000Z'' (grant ''*'' ''*'' ''*''))) = t0
   \<and> fst (getUserPermissions mem_env ''u1'' Map.empty
            (world0 ''2000-01-01T00:00:00.000Z'' (grant ''*'' ''*'' ''*'')))
       = Inr [granted ''*'' ''*'' ''*'']
   \<and> fst (getUserModules mem_env ''u1'' Map.empty
            (world0 ''2000-01-01T00:00:00.000Z'' (grant ''*'' ''*'' ''*'')))
       = Inr [VStr ''HR'', VStr ''WMS'']"
  by (simp add: scenario_modules scenario_permissions)
    (simp add: world0_def mapRowToRoleAssignment_def assignment_row_def row_at_def
      or_undefined_def toUpperCase_def toUpperChar_def)

section \<open>The permission cache\<close>

lemma getUserPermissions_hit:
  assumes "c userId = Some e" and "Date_now env (snd w) \<le> expiresAt e"
  shows "getUserPermissions env userId c w = (Inr (permissions e), c, w)"
  using assms by (simp add: getUserPermissions_def getCachedPermissions_def)

lemma getCachedPermissions_entry:
  assumes "getCachedPermissions env userId c r = (None, c')"
  shows "c' userId = None"
  using assms by (auto simp: getCachedPermissions_def split: option.splits if_splits)

lemma getUserPermissions_cached_result:
  assumes "getUserPermissions env userId c w = (res, c1, w1)" and "c1 userId = Some e"
  shows "res = Inr (permissions e)"
proof (cases "getCachedPermissions env userId c (snd w)")
  case (Pair hit c')
  show ?thesis
  proof (cases hit)
    case (Some cached)
    with Pair assms show ?thesis
      by (auto simp: getUserPermissions_def getCachedPermissions_def
          split: option.splits if_splits)
  next
    case None
    with Pair have "c' userId = None" by (simp add: getCachedPermissions_entry)
    with Pair None assms show ?thesis
      by (auto simp: getUserPermissions_def setCachedPermissions_def
          split: prod.splits sum.splits if_splits)
  qed
qed

lemma getUserPermissions_miss:
  assumes "c userId = None" and "getUserRoles env userId w = (Inr roles, wa)"
  shows "getUserPermissions env userId c w =
           (case getUserPermissions_loop env roles [] wa of
              (Inl err, wb) \<Rightarrow> (Inr [], c, wb)
            | (Inr perms, wb) \<Rightarrow>
                (Inr perms, setCachedPermissions env userId perms c (snd wb), wb))"
  using assms by (simp add: getUserPermissions_def getCachedPermissions_def)

text \<open>
  Claim C7. If a call of \<open>getUserPermissions\<close> leaves an entry for the user in the
  cache, a second call on that cache while the clock has not passed the entry's expiry
  returns the same result and leaves cache and world as they were, whatever the storage
  functions of the environment would do: it makes no storage access. A computed result
  is stored with expiry equal to the clock at insertion plus 5 minutes; a lookup after
  the expiry is a miss that removes the entry, a lookup up to the expiry is a hit.
\<close>

theorem cache_hit_within_ttl:
  "(getUserPermissions env userId c w = (res, c1, w1) \<longrightarrow> c1 userId = Some e
      \<longrightarrow> Date_now env2 (snd w2) \<le> expiresAt e
      \<longrightarrow> getUserPermissions env2 userId c1 w2 = (res, c1, w2))
   \<and> (c userId = None \<longrightarrow> getUserRoles env userId w = (Inr roles, wa)
        \<longrightarrow> getUserPermissions_loop env roles [] wa = (Inr perms, wb)
        \<longrightarrow> getUserPermissions env userId c w =
              (Inr perms,
               c(userId \<mapsto> \<lparr>permissions = perms,
                               expiresAt = Date_now env (snd wb) + 5 * 60 * 1000\<rparr>), wb))
   \<and> setCachedPermissions env userId perms c r =
         c(userId \<mapsto> \<lparr>permissions = perms, expiresAt = Date_now env r + 5 * 60 * 1000\<rparr>)
   \<and> (c userId = Some e \<longrightarrow> expiresAt e < Date_now env r
        \<longrightarrow> getCachedPermissions env userId c r = (None, c(userId := None)))
   \<and> (c userId = Some e \<longrightarrow> Date_now env r \<le> expiresAt e
        \<longrightarrow> getCachedPermissions env userId c r = (Some (permissions e), c))"
proof (intro conjI impI)
  assume "getUserPermissions env userId c w = (res, c1, w1)" and e: "c1 userId = Some e"
    and fresh: "Date_now env2 (snd w2) \<le> expiresAt e"
  then have "res = Inr (permissions e)" by (simp add: getUserPermissions_cached_result)
  with getUserPermissions_hit [of c1 userId e env2 w2] e fresh
  show "getUserPermissions env2 userId c1 w2 = (res, c1, w2)" by simp
next
  assume "c userId = None" and "getUserRoles env userId w = (Inr roles, wa)"
    and "getUserPermissions_loop env roles [] wa = (Inr perms, wb)"
  then show "getUserPermissions env userId c w =
      (Inr perms,
       c(userId \<mapsto> \<lparr>permissions = perms,
                       expiresAt = Date_now env (snd wb) + 5 * 60 * 1000\<rparr>), wb)"
    by (simp add: getUserPermissions_miss setCachedPermissions_def CACHE_TTL_def)
next
  show "setCachedPermissions env userId perms c r =
      c(userId \<mapsto> \<lparr>permissions = perms, expiresAt = Date_now env r + 5 * 60 * 1000\<rparr>)"
    by (simp add: setCachedPermissions_def CACHE_TTL_def)
next
  assume "c userId = Some e" and "expiresAt e < Date_now env r"
  then show "getCachedPermissions env userId c r = (None, c(userId := None))"
    by (simp add: getCachedPermissions_def)
next
  assume "c userId = Some e" and "Date_now env r \<le> expiresAt e"
  then show "getCachedPermissions env userId c r = (Some (permissions e), c)"
    by (simp add: getCachedPermissions_def)
qed

lemma Date_now_down [simp]: "Date_now down_env = clock"
  by (simp add: down_env_def mem_env_def)

theorem cache_hit_within_ttl_witness:
  "getUserPermissions mem_env ''u1'' Map.empty (world0 [] (grant ''HR'' ''create'' ''*'')) =
     (Inr [granted ''HR'' ''create'' ''*''],
      [''u1'' \<mapsto> \<lparr>permissions = [granted ''HR'' ''create'' ''*''], expiresAt = t0 + 300000\<rparr>],
      new_CircuitBreaker,
      (mem_at (scenario_sheets [] (grant ''HR'' ''create'' ''*'')) t0)\<lparr>api_calls := 3\<rparr>)
   \<and> getUserPermissions down_env ''u1''
        [''u1'' \<mapsto> \<lparr>permissions = [granted ''HR'' ''create'' ''*''], expiresAt = t0 + 300000\<rparr>]
        (cb_closed 0, outage_mem (t0 + 300000) 3) =
     (Inr [granted ''HR'' ''create'' ''*''],
      [''u1'' \<mapsto> \<lparr>permissions = [granted ''HR'' ''create'' ''*''], expiresAt = t0 + 300000\<rparr>],
      cb_closed 0, outage_mem (t0 + 300000) 3)
   \<and> getCachedPermissions mem_env ''u1''
        [''u1'' \<mapsto> \<lparr>permissions = [granted ''HR'' ''create'' ''*''], expiresAt = t0 + 300000\<rparr>]
        (outage_mem (t0 + 300001) 3) = (None, Map.empty)
   \<and> getCachedPermissions mem_env ''u1''
        [''u1'' \<mapsto> \<lparr>permissions = [granted ''HR'' ''create'' ''*''], expiresAt = t0 + 300000\<rparr>]
        (outage_mem (t0 + 300000) 3) = (Some [granted ''HR'' ''create'' ''*''],
        [''u1'' \<mapsto> \<lparr>permissions = [granted ''HR'' ''create'' ''*''], expiresAt = t0 + 300000\<rparr>])"
proof -
  let ?e = "\<lparr>permissions = [granted ''HR'' ''create'' ''*''], expiresAt = t0 + 300000\<rparr>"
  note first = scenario_permissions [of "[]" "''HR''" "''create''" "''*''"]
  let ?c1 = "[''u1'' \<mapsto> ?e]"
  let ?w0 = "world0 [] (grant ''HR'' ''create'' ''*'')"
  let ?w2 = "(cb_closed 0, outage_mem (t0 + 300000) 3)"
  note T = cache_hit_within_ttl [where env = mem_env and userId = "''u1''" and e = ?e
      and res = "Inr [granted ''HR'' ''create'' ''*'']" and ?c1.0 = ?c1 and w = ?w0
      and ?w1.0 = "(new_CircuitBreaker,
        (mem_at (scenario_sheets [] (grant ''HR'' ''create'' ''*'')) t0)\<lparr>api_calls := 3\<rparr>)"
      and ?env2.0 = down_env and ?w2.0 = ?w2 and perms = "[]" and roles = "[]"
      and wa = ?w0 and wb = ?w0]
  have a: "getUserPermissions down_env ''u1'' ?c1 ?w2 =
     (Inr [granted ''HR'' ''create'' ''*''], ?c1, ?w2)"
    using T [where c = Map.empty and r = "outage_mem t0 0"]
    by (simp add: first outage_mem_def)
  have b: "getCachedPermissions mem_env ''u1'' ?c1 (outage_mem (t0 + 300001) 3)
      = (None, Map.empty)"
    using T [where c = ?c1 and r = "outage_mem (t0 + 300001) 3"] by (simp add: outage_mem_def)
  have c: "getCachedPermissions mem_env ''u1'' ?c1 (outage_mem (t0 + 300000) 3)
      = (Some [granted ''HR'' ''create'' ''*''], ?c1)"
    using T [where c = ?c1 and r = "outage_mem (t0 + 300000) 3"] by (simp add: outage_mem_def)
  from first a b c show ?thesis by simp
qed

section \<open>Role changes and the cache\<close>




lemmas resolver_defs = getUserPermissions_def getCachedPermissions_def setCachedPermissions_def
  CACHE_TTL_def getUserRoles_def getRoleAssignments_def getRoleById_def getRoles_def
  getPermissions_def userRole_of_def userPermission_of_def safeJsonParse_def granted_def






section \<open>System log\<close>

text \<open>
  Claim C9 as stated fails: with the storage down, or with the breaker open,
  \<open>createSystemLog\<close> returns the error to its caller.
\<close>

theorem createSystemLog_raises_counterexample:
  "fst (createSystemLog mem_env log0 world_outage) = Inl err503
   \<and> fst (createSystemLog mem_env log0 (cb_open 5 (t0 + 60000), mem_at [] t0))
       = Inl breaker_open_error"
  by (simp add: createSystemLog_def generateId_def now_def world_outage_def cb_open_def
      err503_def client_defs mem_defs)

text \<open>
  Claim C9, amended. \<open>createSystemLog\<close> stamps the event with a fresh identifier and the
  current time and returns what the client's append of that one row returns: when the
  breaker is open and cooling down it raises the unavailable error, when the append call
  raises an error that is not retried it raises that error, and when the append call
  succeeds it completes.
\<close>

theorem createSystemLog_propagates:
  assumes "generateId env r = (uuid, r1)"
    and "row = systemLog_row (log\<lparr>sl_log_id := VStr uuid, sl_timestamp := VStr (now env r1)\<rparr>)"
  shows "createSystemLog env log (cb, r) = SheetsClient_append env ''SYSTEM_LOG'' [row] (cb, r1)
    \<and> (state cb = OPEN \<and> cooling_down env cb r1 \<longrightarrow>
          createSystemLog env log (cb, r) = (Inl breaker_open_error, cb, r1))
    \<and> (state cb = CLOSED \<longrightarrow>
          (\<forall>err r2. values_append env ''SYSTEM_LOG'' [row] r1 = (Inl err, r2)
             \<longrightarrow> \<not> isRetryable err
             \<longrightarrow> createSystemLog env log (cb, r) = (Inl err, onFailure env cb r2, r2))
          \<and> (\<forall>v r2. values_append env ''SYSTEM_LOG'' [row] r1 = (Inr v, r2)
                \<longrightarrow> createSystemLog env log (cb, r) = (Inr v, onSuccess cb, r2)))"
  using assms
  by (simp add: createSystemLog_def SheetsClient_append_def execute_def retryWithBackoff_def
      retry_from.simps)

theorem createSystemLog_propagates_witness:
  "generateId mem_env (mem_at [(''SYSTEM_LOG'', [[VStr ''log_id'']])] t0)
     = (''id-1'', (mem_at [(''SYSTEM_LOG'', [[VStr ''log_id'']])] t0)\<lparr>next_id := 2\<rparr>)
   \<and> createSystemLog mem_env log0
        (new_CircuitBreaker, mem_at [(''SYSTEM_LOG'', [[VStr ''log_id'']])] t0) =
      (Inr (), new_CircuitBreaker,
       \<lparr>sheets = [(''SYSTEM_LOG'',
           [[VStr ''log_id''],
            [VStr ''id-1'', VStr ''t1790000000000'', VStr ''ERROR'', VStr ''u1'', VStr [], VStr [],
             VStr ''Sheets read failed'', VStr [], VStr [], VStr [], VStr []]])],
        clock = t0, next_id = 2, outage = None, api_calls = 1\<rparr>)
   \<and> createSystemLog mem_env log0
        (new_CircuitBreaker,
         (mem_at [(''SYSTEM_LOG'', [[VStr ''log_id'']])] t0)\<lparr>outage := Some (Error ''forbidden'' None (Some 403))\<rparr>) =
      (Inl (Error ''forbidden'' None (Some 403)), cb_closed 1,
       \<lparr>sheets = [(''SYSTEM_LOG'', [[VStr ''log_id'']])],
        clock = t0, next_id = 2, outage = Some (Error ''forbidden'' None (Some 403)),
        api_calls = 1\<rparr>)"
proof -
  let ?m = "mem_at [(''SYSTEM_LOG'', [[VStr ''log_id'']])] t0"
  let ?row = "systemLog_row (log0\<lparr>sl_log_id := VStr ''id-1'',
      sl_timestamp := VStr (now mem_env (?m\<lparr>next_id := 2\<rparr>))\<rparr>)"
  have g: "generateId mem_env ?m = (''id-1'', ?m\<lparr>next_id := 2\<rparr>)"
    by (simp add: generateId_def mem_env_def mem_at_def string_of_nat.simps digit_char_def)
  let ?d = "?m\<lparr>outage := Some (Error ''forbidden'' None (Some 403))\<rparr>"
  have gd: "generateId mem_env ?d = (''id-1'', ?d\<lparr>next_id := 2\<rparr>)"
    by (simp add: generateId_def mem_env_def mem_at_def string_of_nat.simps digit_char_def)
  have a: "createSystemLog mem_env log0 (new_CircuitBreaker, ?m) =
      (Inr (), new_CircuitBreaker,
       \<lparr>sheets = [(''SYSTEM_LOG'',
           [[VStr ''log_id''],
            [VStr ''id-1'', VStr ''t1790000000000'', VStr ''ERROR'', VStr ''u1'', VStr [], VStr [],
             VStr ''Sheets read failed'', VStr [], VStr [], VStr [], VStr []]])],
        clock = t0, next_id = 2, outage = None, api_calls = 1\<rparr>)"
    using createSystemLog_propagates [OF g, where row = ?row and log = log0
        and cb = new_CircuitBreaker]
    by (simp add: systemLog_row_def log0_def now_def or_empty_def
        string_of_nat.simps digit_char_def t0_def client_defs mem_defs)
  have b: "createSystemLog mem_env log0 (new_CircuitBreaker, ?d) =
      (Inl (Error ''forbidden'' None (Some 403)), cb_closed 1,
       \<lparr>sheets = [(''SYSTEM_LOG'', [[VStr ''log_id'']])],
        clock = t0, next_id = 2, outage = Some (Error ''forbidden'' None (Some 403)),
        api_calls = 1\<rparr>)"
    using createSystemLog_propagates [OF gd, where
        row = "systemLog_row (log0\<lparr>sl_log_id := VStr ''id-1'',
          sl_timestamp := VStr (now mem_env (?d\<lparr>next_id := 2\<rparr>))\<rparr>)"
        and log = log0 and cb = new_CircuitBreaker]
    by (simp add: systemLog_row_def log0_def now_def or_empty_def
        string_of_nat.simps digit_char_def t0_def cb_closed_def client_defs mem_defs)
  from g a b show ?thesis by simp
qed

section \<open>Failure during permission resolution\<close>

text \<open>
  Claim C4, on the code. With the storage down and an empty cache, \<open>getUserRoles\<close>
  swallows the failure of the role lookup, so \<open>getUserPermissions\<close> goes on with no role,
  returns the empty list and stores it in the cache for five minutes. One second later
  the storage has recovered: the call is served the empty list from that entry, where a
  call on an empty cache resolves the user's permission. (A failure of the permission
  lookup itself leaves the cache as it was, see \<open>getUserPermissions_miss\<close>.)
\<close>

theorem failed_role_lookup_populates_cache:
  "getUserPermissions mem_env ''u1'' Map.empty world_outage =
     (Inr [], [''u1'' \<mapsto> \<lparr>permissions = [], expiresAt = t0 + 300700\<rparr>], cb_closed 1,
      (mem_at (scenario_sheets [] (grant ''HR'' ''create'' ''*'')) (t0 + 700))
        \<lparr>outage := Some err503, api_calls := 3\<rparr>)
   \<and> getUserPermissions mem_env ''u1''
        [''u1'' \<mapsto> \<lparr>permissions = [], expiresAt = t0 + 300700\<rparr>] world_recovered =
     (Inr [], [''u1'' \<mapsto> \<lparr>permissions = [], expiresAt = t0 + 300700\<rparr>], world_recovered)
   \<and> fst (getUserPermissions mem_env ''u1'' Map.empty world_recovered)
       = Inr [granted ''HR'' ''create'' ''*'']"
proof -
  have a: "getUserPermissions mem_env ''u1'' Map.empty world_outage =
     (Inr [], [''u1'' \<mapsto> \<lparr>permissions = [], expiresAt = t0 + 300700\<rparr>], cb_closed 1,
      (mem_at (scenario_sheets [] (grant ''HR'' ''create'' ''*'')) (t0 + 700))
        \<lparr>outage := Some err503, api_calls := 3\<rparr>)"
    by (simp add: world_outage_def err503_def cb_closed_def t0_def resolver_defs client_defs
        mem_defs)
  have b: "getUserPermissions mem_env ''u1''
        [''u1'' \<mapsto> \<lparr>permissions = [], expiresAt = t0 + 300700\<rparr>] world_recovered =
     (Inr [], [''u1'' \<mapsto> \<lparr>permissions = [], expiresAt = t0 + 300700\<rparr>], world_recovered)"
    by (simp add: getUserPermissions_def getCachedPermissions_def world_recovered_def)
  have c: "fst (getUserPermissions mem_env ''u1'' Map.empty world_recovered)
       = Inr [granted ''HR'' ''create'' ''*'']"
    by (simp add: world_recovered_def cb_closed_def resolver_defs client_defs mem_defs
        row_defs scenario_defs)
  from a b c show ?thesis by simp
qed

end
